theory Spec2Isabelle
  imports Main
begin

section \<open>JavaScript values\<close>

text \<open>
  The source is TypeScript in which client options, room properties and remote-call
  payloads have type \<open>any\<close>. They are modelled by a datatype of JavaScript values;
  \<open>truthy\<close> is the test that \<open>if (v)\<close> and \<open>!v\<close> perform.
\<close>

datatype jsval =
    JUndefined
  | JNull
  | JBool bool
  | JNum int
  | JStr string
  | JArr "jsval list"
  | JObj "(string \<times> jsval) list"

fun truthy :: "jsval \<Rightarrow> bool" where
  "truthy JUndefined = False"
| "truthy JNull = False"
| "truthy (JBool b) = b"
| "truthy (JNum n) = (n \<noteq> 0)"
| "truthy (JStr s) = (s \<noteq> [])"
| "truthy (JArr xs) = True"
| "truthy (JObj ps) = True"

text \<open>An object is a list of properties in insertion order.\<close>

type_synonym jsobj = "(string \<times> jsval) list"

definition get_prop :: "jsobj \<Rightarrow> string \<Rightarrow> jsval" where
  "get_prop obj k = (case map_of obj k of None \<Rightarrow> JUndefined | Some v \<Rightarrow> v)"

fun set_prop :: "jsobj \<Rightarrow> string \<Rightarrow> jsval \<Rightarrow> jsobj" where
  "set_prop [] k v = [(k, v)]"
| "set_prop ((k', v') # ps) k v =
     (if k' = k then (k, v) # ps else (k', v') # set_prop ps k v)"

text \<open>Object spread \<open>{...a, ...b}\<close>: the properties of \<open>b\<close> are assigned onto \<open>a\<close> in order.\<close>

definition spread :: "jsobj \<Rightarrow> jsobj \<Rightarrow> jsobj" where
  "spread a b = foldl (\<lambda>obj (k, v). set_prop obj k v) a b"

text \<open>
  Numbers that reach \<open>Math.min\<close> and \<open>setTimeout\<close>: an integer or \<open>NaN\<close> (what
  \<open>Number\<close> yields for a text that is not a number).
\<close>

datatype jsnum = Num int | NaN

fun Math_min :: "jsnum \<Rightarrow> jsnum \<Rightarrow> jsnum" where
  "Math_min (Num a) (Num b) = Num (min a b)"
| "Math_min NaN y = NaN"
| "Math_min x NaN = NaN"

fun digits_of :: "nat \<Rightarrow> string" where
  "digits_of n =
     (if n < 10 then [char_of (48 + n)]
      else digits_of (n div 10) @ [char_of (48 + n mod 10)])"

declare digits_of.simps [simp del]

text \<open>The text a template literal \<open>`${n}`\<close> produces for a number.\<close>

fun string_of_jsnum :: "jsnum \<Rightarrow> string" where
  "string_of_jsnum NaN = ''NaN''"
| "string_of_jsnum (Num i) =
     (if i < 0 then CHR ''-'' # digits_of (nat (- i)) else digits_of (nat i))"

section \<open>Protocol constants and errors\<close>

text \<open>
  Modelled from the spec: \<open>Protocol\<close> and \<open>IpcProtocol\<close> come from \<open>./Protocol\<close>, which
  is not part of the sources at hand. The spec lists the error codes, which the
  source names, and the two IPC codes of a reply, \<open>SUCCESS\<close> and \<open>ERROR\<close>; they are
  constructors here.
\<close>

datatype Protocol =
    ERR_MATCHMAKE_NO_HANDLER
  | ERR_MATCHMAKE_INVALID_CRITERIA
  | ERR_MATCHMAKE_INVALID_ROOM_ID
  | ERR_MATCHMAKE_UNHANDLED
  | ERR_MATCHMAKE_EXPIRED
  | JOIN_ERROR
  | WS_CLOSE_WITH_ERROR

datatype IpcProtocol = SUCCESS | ERROR

text \<open>
  Everything the source throws or rejects with: the two error classes of the
  matchmaker, a plain \<open>Error\<close> (the remote-call timeout), the \<open>TypeError\<close> the runtime
  raises on a property access of \<open>undefined\<close> or a call of a non-function, the
  payload of a remote \<open>ERROR\<close> reply (\<open>reject(data)\<close>), and an error thrown by the
  code of a room, with its message.
\<close>

datatype error =
    MatchMakeError string Protocol
  | SeatReservationError string
  | Error string
  | TypeError string
  | RemoteRejection "jsval \<times> jsval"
  | RoomError string

datatype error_class =
    MatchMakeError_class
  | SeatReservationError_class
  | Error_class
  | TypeError_class
  | NoClass

text \<open>\<open>e.constructor\<close> and \<open>e.message\<close>.\<close>

fun constructor_of :: "error \<Rightarrow> error_class" where
  "constructor_of (MatchMakeError m c) = MatchMakeError_class"
| "constructor_of (SeatReservationError m) = SeatReservationError_class"
| "constructor_of (Error m) = Error_class"
| "constructor_of (TypeError m) = TypeError_class"
| "constructor_of (RemoteRejection d) = NoClass"
| "constructor_of (RoomError m) = Error_class"

fun message_of :: "error \<Rightarrow> string" where
  "message_of (MatchMakeError m c) = m"
| "message_of (SeatReservationError m) = m"
| "message_of (Error m) = m"
| "message_of (TypeError m) = m"
| "message_of (RemoteRejection d) = []"
| "message_of (RoomError m) = m"

section \<open>Collaborators of the matchmaker\<close>

subsection \<open>Registry driver\<close>

text \<open>
  Modelled from the spec: the registry driver and its listings (\<open>./matchmaker/drivers\<close>)
  are not part of the sources at hand. A listing has the attributes of the spec's data
  model and the filter fields projected from the client options; the registry is the
  list of saved listings. \<open>find\<close> keeps the listings whose fields equal every condition,
  \<open>findOne\<close> returns the first of them after the optional sort, \<open>createInstance\<close>
  builds a listing that is not visible until \<open>save\<close>. A listing's \<open>roomId\<close> is the empty
  text until the matchmaker assigns it. A listing in hand is held by value: it shows
  the row as it was read or built, and what is saved later shows in the registry.
\<close>

record RoomListingData =
  roomId :: string
  name :: string
  processId :: jsval
  locked :: bool
  "private" :: bool
  maxClients :: jsval
  clients :: nat
  filterFields :: jsobj

definition field_of :: "RoomListingData \<Rightarrow> string \<Rightarrow> jsval" where
  \<comment> \<open>Modelled from the spec: a listing's field by name, as a condition of \<open>find\<close> reads it.\<close>
  "field_of l k =
     (if k = ''roomId'' then JStr (RoomListingData.roomId l)
      else if k = ''name'' then JStr (name l)
      else if k = ''processId'' then RoomListingData.processId l
      else if k = ''locked'' then JBool (locked l)
      else if k = ''private'' then JBool (private l)
      else if k = ''maxClients'' then RoomListingData.maxClients l
      else if k = ''clients'' then JNum (int (clients l))
      else get_prop (filterFields l) k)"

definition matches :: "jsobj \<Rightarrow> RoomListingData \<Rightarrow> bool" where
  \<comment> \<open>Modelled from the spec: a listing matches when each field that the conditions name equals the condition's value.\<close>
  "matches conditions l =
     list_all (\<lambda>k. field_of l k = get_prop conditions k) (map fst conditions)"

definition driver_find :: "jsobj \<Rightarrow> RoomListingData list \<Rightarrow> RoomListingData list" where
  \<comment> \<open>Modelled from the spec: \<open>find(conditions)\<close> keeps the listings that match, in registry order.\<close>
  "driver_find conditions registry = filter (matches conditions) registry"

type_synonym sort_spec = "RoomListingData list \<Rightarrow> RoomListingData list"

definition driver_findOne ::
  "jsobj \<Rightarrow> sort_spec option \<Rightarrow> RoomListingData list \<Rightarrow> RoomListingData option" where
  \<comment> \<open>Modelled from the spec: \<open>findOne(conditions)\<close> with the optional \<open>sort\<close>: the first match, or null.\<close>
  "driver_findOne conditions sortOptions registry =
     (case (case sortOptions of None \<Rightarrow> driver_find conditions registry
            | Some srt \<Rightarrow> srt (driver_find conditions registry)) of
        [] \<Rightarrow> None
      | l # ls \<Rightarrow> Some l)"

definition createInstance :: "jsobj \<Rightarrow> RoomListingData" where
  \<comment> \<open>Modelled from the spec: \<open>createInstance(initialFields)\<close>: a buffered listing, unlocked and public, not yet in the registry.\<close>
  "createInstance initialFields =
     \<lparr> roomId = [],
       name = (case get_prop initialFields ''name'' of JStr s \<Rightarrow> s | _ \<Rightarrow> []),
       processId = get_prop initialFields ''processId'',
       locked = False,
       private = False,
       maxClients = JUndefined,
       clients = 0,
       filterFields =
         filter (\<lambda>(k, v). k \<noteq> ''name'' \<and> k \<noteq> ''processId'') initialFields \<rparr>"

definition listing_save :: "RoomListingData \<Rightarrow> RoomListingData list \<Rightarrow> RoomListingData list" where
  \<comment> \<open>Modelled from the spec: \<open>save()\<close> makes the listing visible: it replaces the saved listing of the same room id, or is added.\<close>
  "listing_save l registry =
     (if \<exists>l' \<in> set registry. RoomListingData.roomId l' = RoomListingData.roomId l
      then map (\<lambda>l'. if RoomListingData.roomId l' = RoomListingData.roomId l then l else l') registry
      else registry @ [l])"

definition listing_remove :: "RoomListingData \<Rightarrow> RoomListingData list \<Rightarrow> RoomListingData list" where
  \<comment> \<open>Modelled from the spec: \<open>remove()\<close> takes the listing's row out of the registry.\<close>
  "listing_remove l registry =
     filter (\<lambda>l'. RoomListingData.roomId l' \<noteq> RoomListingData.roomId l) registry"

subsection \<open>Room handle\<close>

text \<open>
  Modelled from the spec: the \<open>Room\<close> class (\<open>./Room\<close>) is not part of the sources at
  hand. A room has its identity, capacity, internal state, listing and user-defined
  properties, the callbacks registered for its lifecycle events, and a table of
  methods (\<open>_reserveSeat\<close>, \<open>hasReservedSeat\<close>, \<open>_onJoin\<close>, \<open>onCreate\<close> and arbitrary user
  methods).

  A callback is one of the operations that \<open>createRoom\<close> binds to the room: \<open>lockRoom\<close>,
  \<open>unlockRoom\<close> and \<open>disposeRoom\<close> with the name of the room type, \<open>onClientJoinRoom\<close>,
  \<open>onClientLeaveRoom\<close>, and the removal of all callbacks. It is registered for an event
  with \<open>on\<close>, or with \<open>once\<close>, which removes it when it is first called.

  A method receives its arguments and the room's data. It returns a value or throws
  an error with a message, leaves the room's data as it changed them, and acts
  outside the room in two ways, listed in the order in which it did them: it saves the
  room's listing to the registry (so a seat reservation makes the increased count of
  clients, and the lock of a full room, visible there), and it emits lifecycle events
  (\<open>lock\<close>, \<open>unlock\<close>, \<open>join\<close>, \<open>leave\<close>, \<open>dispose\<close>, \<open>disconnect\<close>), which call the
  callbacks registered for them.
\<close>

datatype RoomInternalState = CREATING | CREATED | DISCONNECTING | DISPOSED

datatype listener =
    LockRoom string
  | UnlockRoom string
  | OnClientJoinRoom
  | OnClientLeaveRoom
  | DisposeRoom string
  | RemoveAllListeners

datatype room_effect = Save | Emit string

record RoomData =
  roomId :: string
  roomName :: string
  maxClients :: jsval
  internalState :: RoomInternalState
  listing :: RoomListingData
  props :: "string \<rightharpoonup> jsval"
  listeners :: "(string \<times> bool \<times> listener) list"

type_synonym room_method =
  "jsval list \<Rightarrow> RoomData \<Rightarrow> (string + jsval) \<times> RoomData \<times> room_effect list"

record Room =
  data :: RoomData
  methods :: "string \<rightharpoonup> room_method"

text \<open>\<open>room[name]\<close>: a property value, or a function when \<open>name\<close> is a method.\<close>

datatype member = Value jsval | Function room_method

definition room_member :: "Room \<Rightarrow> string \<Rightarrow> member" where
  \<comment> \<open>Modelled from the spec: \<open>room[m]\<close> reads the room's attributes, then its user-defined properties, then its methods.\<close>
  "room_member room m =
     (if m = ''roomId'' then Value (JStr (RoomData.roomId (data room)))
      else if m = ''roomName'' then Value (JStr (roomName (data room)))
      else if m = ''maxClients'' then Value (RoomData.maxClients (data room))
      else case props (data room) m of
             Some v \<Rightarrow> Value v
           | None \<Rightarrow> (case methods room m of Some f \<Rightarrow> Function f | None \<Rightarrow> Value JUndefined))"

text \<open>
  The body of \<open>room[name].apply(room, args)\<close>: calling a member that is not a function
  is a \<open>TypeError\<close>; otherwise the method runs and gives its outcome, the room with the
  changes the method made, and what the method did outside the room.
\<close>

definition room_apply ::
  "Room \<Rightarrow> string \<Rightarrow> jsval list \<Rightarrow> (error + jsval) \<times> Room \<times> room_effect list" where
  \<comment> \<open>Modelled from the spec: the method \<open>room[m]\<close> applied to \<open>args\<close>.\<close>
  "room_apply room m args =
     (case room_member room m of
        Value v \<Rightarrow> (Inl (TypeError (''room.'' @ m @ '' is not a function'')), room, [])
      | Function f \<Rightarrow>
          (case f args (data room) of
             (Inl msg, d, effects) \<Rightarrow> (Inl (RoomError msg), room\<lparr>data := d\<rparr>, effects)
           | (Inr v, d, effects) \<Rightarrow> (Inr v, room\<lparr>data := d\<rparr>, effects)))"

subsection \<open>Registered handler\<close>

text \<open>
  Modelled from the spec: \<open>RegisteredHandler\<close> (\<open>./matchmaker/RegisteredHandler\<close>) is not
  part of the sources at hand. It carries the room constructor (here the room a
  construction yields), the default options, the filter projection, the optional sort
  and the events emitted on it (event name and room id, in order).
\<close>

record RegisteredHandler =
  klass :: Room
  options :: jsobj
  getFilterOptions :: "jsobj \<Rightarrow> jsobj"
  sortOptions :: "sort_spec option"
  emitted :: "(string \<times> string) list"

subsection \<open>Presence\<close>

text \<open>
  Modelled from the spec: \<open>Presence\<close> is an interface whose implementations are external
  drivers. Its contract is pub/sub channels, atomic counters, set membership and
  key/value delete. \<open>subscriptions\<close> lists the channels with a handler, \<open>published\<close> the
  messages sent, \<open>members\<close> the sets and \<open>keys\<close> the counters. \<open>unsubscribe\<close> removes the
  handlers of a channel; \<open>incr\<close> and \<open>decr\<close> start from 0 on a missing key and return the
  new value. All operations take effect (no transient failure).
\<close>

datatype subscriber = ReplyHandler | RoomChannelHandler

datatype ipc_message =
    Request string string "jsval list option"
  | Reply IpcProtocol "jsval \<times> jsval"

record Presence =
  subscriptions :: "(string \<times> subscriber) list"
  published :: "(string \<times> ipc_message) list"
  members :: "string \<Rightarrow> string set"
  keys :: "string \<rightharpoonup> int"

definition presence_subscribe :: "string \<Rightarrow> subscriber \<Rightarrow> Presence \<Rightarrow> Presence" where
  \<comment> \<open>Modelled from the spec: \<open>subscribe(channel, handler)\<close>.\<close>
  "presence_subscribe channel handler p = p\<lparr>subscriptions := subscriptions p @ [(channel, handler)]\<rparr>"

definition presence_unsubscribe :: "string \<Rightarrow> Presence \<Rightarrow> Presence" where
  \<comment> \<open>Modelled from the spec: \<open>unsubscribe(channel)\<close> removes every handler of the channel.\<close>
  "presence_unsubscribe channel p =
     p\<lparr>subscriptions := filter (\<lambda>(c, h). c \<noteq> channel) (subscriptions p)\<rparr>"

definition presence_publish :: "string \<Rightarrow> ipc_message \<Rightarrow> Presence \<Rightarrow> Presence" where
  \<comment> \<open>Modelled from the spec: \<open>publish(channel, message)\<close>.\<close>
  "presence_publish channel message p = p\<lparr>published := published p @ [(channel, message)]\<rparr>"

definition presence_sadd :: "string \<Rightarrow> string \<Rightarrow> Presence \<Rightarrow> Presence" where
  \<comment> \<open>Modelled from the spec: \<open>sadd(set, member)\<close>.\<close>
  "presence_sadd key v p = p\<lparr>members := (members p)(key := insert v (members p key))\<rparr>"

definition presence_srem :: "string \<Rightarrow> string \<Rightarrow> Presence \<Rightarrow> Presence" where
  \<comment> \<open>Modelled from the spec: \<open>srem(set, member)\<close>.\<close>
  "presence_srem key v p = p\<lparr>members := (members p)(key := members p key - {v})\<rparr>"

definition counter :: "Presence \<Rightarrow> string \<Rightarrow> int" where
  \<comment> \<open>Modelled from the spec: the value of a counter; a missing key counts as 0.\<close>
  "counter p key = (case keys p key of None \<Rightarrow> 0 | Some n \<Rightarrow> n)"

definition presence_incr :: "string \<Rightarrow> Presence \<Rightarrow> int \<times> Presence" where
  \<comment> \<open>Modelled from the spec: \<open>incr(key)\<close> returns the incremented value.\<close>
  "presence_incr key p = (counter p key + 1, p\<lparr>keys := (keys p)(key \<mapsto> counter p key + 1)\<rparr>)"

definition presence_decr :: "string \<Rightarrow> Presence \<Rightarrow> int \<times> Presence" where
  \<comment> \<open>Modelled from the spec: \<open>decr(key)\<close> returns the decremented value.\<close>
  "presence_decr key p = (counter p key - 1, p\<lparr>keys := (keys p)(key \<mapsto> counter p key - 1)\<rparr>)"

definition presence_del :: "string \<Rightarrow> Presence \<Rightarrow> Presence" where
  \<comment> \<open>Modelled from the spec: \<open>del(key)\<close> deletes the key/value entry.\<close>
  "presence_del key p = p\<lparr>keys := (keys p)(key := None)\<rparr>"

section \<open>The matchmaker\<close>

text \<open>
  The state of one process: the fields of class \<open>MatchMaker\<close>, and what the runtime
  holds for it: the value of the environment variable (\<open>None\<close> when it is unset or
  empty, otherwise the number \<open>Number\<close> reads from it), the source of \<open>generateId\<close>
  with the count of ids drawn, \<open>JSON.stringify\<close>, the replies that will arrive for the
  coming remote calls (\<open>None\<close>, or no entry: no reply arrives before the timer), the
  pending timers of remote calls, the delays of the timers that fired, and the store
  of condition objects that callers of \<open>query\<close> hold references to. The registry and
  the presence are the shared ones as this process reads and writes them; what other
  processes write to them is not part of a step of this process, which sees of their
  rooms only the replies to its remote calls.

  A promise is modelled by its settlement: \<open>Inr\<close> the value it resolves with, \<open>Inl\<close> the
  error it rejects with, together with the state then. Debug output
  (\<open>debugMatchMaking\<close>, \<open>debugAndPrintError\<close>) has no effect on the state. Client options
  (\<open>ClientOptions = any\<close>) are a key/value bag, an object. A parameter that shares its
  name with a field is abbreviated: \<open>rid\<close> for \<open>roomId\<close>, \<open>rname\<close> for \<open>roomName\<close>, \<open>opts\<close> for
  \<open>options\<close>, \<open>sid\<close> for \<open>sessionId\<close>.
\<close>

record MatchMaker =
  handlers :: "string \<rightharpoonup> RegisteredHandler"
  processId :: jsval
  localRooms :: "string \<rightharpoonup> Room"
  presence :: Presence
  driver :: "RoomListingData list"
  isGracefullyShuttingDown :: bool
  COLYSEUS_PRESENCE_SHORT_TIMEOUT :: "jsnum option"
  idgen :: "nat \<Rightarrow> string"
  generated :: nat
  JSON_stringify :: "jsval list \<Rightarrow> string"
  network :: "(IpcProtocol \<times> (jsval \<times> jsval)) option list"
  timers :: "(string \<times> jsnum) list"
  elapsed :: "jsnum list"
  objects :: "jsobj list"

text \<open>\<open>Number(process.env.COLYSEUS_PRESENCE_SHORT_TIMEOUT || 2000)\<close>\<close>

definition REMOTE_ROOM_SHORT_TIMEOUT :: "MatchMaker \<Rightarrow> jsnum" where
  "REMOTE_ROOM_SHORT_TIMEOUT w =
     (case COLYSEUS_PRESENCE_SHORT_TIMEOUT w of None \<Rightarrow> Num 2000 | Some n \<Rightarrow> n)"

definition generateId :: "MatchMaker \<Rightarrow> string \<times> MatchMaker" where
  \<comment> \<open>Modelled from the spec: \<open>generateId\<close> (from \<open>./index\<close>) yields opaque ids; here the next id of the state's source.\<close>
  "generateId w = (idgen w (generated w), w\<lparr>generated := Suc (generated w)\<rparr>)"

definition getRoomChannel :: "string \<Rightarrow> string" where
  "getRoomChannel rid = ''$'' @ rid"

definition getHandlerConcurrencyKey :: "string \<Rightarrow> string" where
  "getHandlerConcurrencyKey rname = rname @ '':c''"

definition setTimeout :: "string \<Rightarrow> jsnum \<Rightarrow> MatchMaker \<Rightarrow> MatchMaker" where
  "setTimeout handle delay w = w\<lparr>timers := timers w @ [(handle, delay)]\<rparr>"

definition clearTimeout :: "string \<Rightarrow> MatchMaker \<Rightarrow> MatchMaker" where
  "clearTimeout handle w = w\<lparr>timers := filter (\<lambda>(h, d). h \<noteq> handle) (timers w)\<rparr>"

text \<open>A pending timer fires: it leaves the pending timers and its delay has elapsed.\<close>

definition timer_fires :: "string \<Rightarrow> MatchMaker \<Rightarrow> MatchMaker" where
  "timer_fires handle w =
     (case map_of (timers w) handle of
        None \<Rightarrow> w
      | Some delay \<Rightarrow>
          w\<lparr>timers := filter (\<lambda>(h, d). h \<noteq> handle) (timers w), elapsed := elapsed w @ [delay]\<rparr>)"

subsection \<open>Room references and the callbacks of room events\<close>

text \<open>
  The callback that \<open>createRoomReferences\<close> subscribes on the room's channel is the
  owning side of a remote call; here only the subscription is recorded.
\<close>

definition createRoomReferences :: "Room \<Rightarrow> bool \<Rightarrow> MatchMaker \<Rightarrow> bool \<times> MatchMaker" where
  "createRoomReferences room init w =
     (let rid = RoomData.roomId (data room);
          w1 = w\<lparr>localRooms := (localRooms w)(rid \<mapsto> room)\<rparr>;
          w2 = w1\<lparr>presence := presence_sadd (roomName (data room)) rid (presence w1)\<rparr>;
          w3 = (if init
                then w2\<lparr>presence :=
                        presence_subscribe (getRoomChannel rid) RoomChannelHandler (presence w2)\<rparr>
                else w2)
      in (True, w3))"

definition clearRoomReferences :: "Room \<Rightarrow> MatchMaker \<Rightarrow> MatchMaker" where
  "clearRoomReferences room w =
     (let w1 = w\<lparr>presence :=
                  presence_srem (roomName (data room)) (RoomData.roomId (data room)) (presence w)\<rparr>
      in w1\<lparr>presence := presence_del (RoomData.roomId (data room)) (presence w1)\<rparr>)"

text \<open>\<open>this.handlers[rname].emit(event, room)\<close>; without a handler the access throws.\<close>

definition handler_emit :: "string \<Rightarrow> string \<Rightarrow> Room \<Rightarrow> MatchMaker \<Rightarrow> (error + unit) \<times> MatchMaker" where
  "handler_emit rname event room w =
     (case handlers w rname of
        None \<Rightarrow> (Inl (TypeError ''Cannot read property 'emit' of undefined''), w)
      | Some handler \<Rightarrow>
          (Inr (),
           w\<lparr>handlers := (handlers w)
                (rname \<mapsto> handler\<lparr>emitted := emitted handler @ [(event, RoomData.roomId (data room))]\<rparr>)\<rparr>))"

text \<open>
  The client that a \<open>join\<close> or \<open>leave\<close> event carries is passed on to the handler's
  event; the record of the handler's events keeps the event's name and the room.
\<close>

definition onClientJoinRoom :: "Room \<Rightarrow> MatchMaker \<Rightarrow> (error + unit) \<times> MatchMaker" where
  "onClientJoinRoom room w = handler_emit (roomName (data room)) ''join'' room w"

definition onClientLeaveRoom :: "Room \<Rightarrow> MatchMaker \<Rightarrow> (error + unit) \<times> MatchMaker" where
  "onClientLeaveRoom room w = handler_emit (roomName (data room)) ''leave'' room w"

definition lockRoom :: "string \<Rightarrow> Room \<Rightarrow> MatchMaker \<Rightarrow> (error + unit) \<times> MatchMaker" where
  "lockRoom rname room w =
     handler_emit (roomName (data room)) ''lock'' room (clearRoomReferences room w)"

definition unlockRoom :: "string \<Rightarrow> Room \<Rightarrow> MatchMaker \<Rightarrow> (error + unit) \<times> MatchMaker" where
  "unlockRoom rname room w =
     (let (ok, w1) = createRoomReferences room False w
      in if ok then handler_emit (roomName (data room)) ''unlock'' room w1 else (Inr (), w1))"

definition disposeRoom :: "string \<Rightarrow> Room \<Rightarrow> MatchMaker \<Rightarrow> (error + unit) \<times> MatchMaker" where
  "disposeRoom rname room w =
     (let w1 = w\<lparr>driver := listing_remove (listing (data room)) (driver w)\<rparr>
      in case handler_emit rname ''dispose'' room w1 of
           (Inl e, w2) \<Rightarrow> (Inl e, w2)
         | (Inr u, w2) \<Rightarrow>
             (let w3 = w2\<lparr>presence := presence_del (getHandlerConcurrencyKey rname) (presence w2)\<rparr>;
                  w4 = clearRoomReferences room w3;
                  w5 = w4\<lparr>presence :=
                          presence_unsubscribe (getRoomChannel (RoomData.roomId (data room)))
                            (presence w4)\<rparr>
              in (Inr (), w5\<lparr>localRooms := (localRooms w5)(RoomData.roomId (data room) := None)\<rparr>)))"

subsection \<open>Calling a method of a local room\<close>

text \<open>
  Modelled from the spec: how the events that a room emits reach the matchmaker is
  part of the \<open>Room\<close> class. \<open>emit\<close> calls the callbacks registered for the event in the
  order of their registration, a callback registered with \<open>once\<close> being removed just
  before it is called. An error thrown by a callback leaves \<open>emit\<close> and, the method
  not catching it, the method that emitted the event. \<open>unlockRoom\<close> is asynchronous:
  its failure is a rejected promise that nobody awaits, not an error thrown into
  \<open>emit\<close>.
\<close>

definition run_listener :: "listener \<Rightarrow> Room \<Rightarrow> MatchMaker \<Rightarrow> (error + unit) \<times> Room \<times> MatchMaker" where
  "run_listener l room w =
     (case l of
        LockRoom rname \<Rightarrow> (case lockRoom rname room w of (r, w') \<Rightarrow> (r, room, w'))
      | UnlockRoom rname \<Rightarrow> (case unlockRoom rname room w of (r, w') \<Rightarrow> (Inr (), room, w'))
      | OnClientJoinRoom \<Rightarrow> (case onClientJoinRoom room w of (r, w') \<Rightarrow> (r, room, w'))
      | OnClientLeaveRoom \<Rightarrow> (case onClientLeaveRoom room w of (r, w') \<Rightarrow> (r, room, w'))
      | DisposeRoom rname \<Rightarrow> (case disposeRoom rname room w of (r, w') \<Rightarrow> (r, room, w'))
      | RemoveAllListeners \<Rightarrow> (Inr (), room\<lparr>data := (data room)\<lparr>listeners := []\<rparr>\<rparr>, w))"

fun run_listeners ::
  "(string \<times> bool \<times> listener) list \<Rightarrow> Room \<Rightarrow> MatchMaker \<Rightarrow> (error + unit) \<times> Room \<times> MatchMaker" where
  "run_listeners [] room w = (Inr (), room, w)"
| "run_listeners ((event, once, l) # rest) room w =
     (let room1 = (if once
                   then room\<lparr>data := (data room)
                          \<lparr>listeners := remove1 (event, once, l) (listeners (data room))\<rparr>\<rparr>
                   else room)
      in case run_listener l room1 w of
           (Inl e, room2, w') \<Rightarrow> (Inl e, room2, w')
         | (Inr u, room2, w') \<Rightarrow> run_listeners rest room2 w')"

definition room_emit :: "string \<Rightarrow> Room \<Rightarrow> MatchMaker \<Rightarrow> (error + unit) \<times> Room \<times> MatchMaker" where
  "room_emit event room w =
     run_listeners (filter (\<lambda>(e, once, l). e = event) (listeners (data room))) room w"

text \<open>
  Modelled from the spec: what a method did outside the room takes effect in order,
  \<open>this.listing.save()\<close> on the registry and \<open>this.emit(event)\<close> through the callbacks.
\<close>

fun run_effects ::
  "room_effect list \<Rightarrow> Room \<Rightarrow> MatchMaker \<Rightarrow> (error + unit) \<times> Room \<times> MatchMaker" where
  "run_effects [] room w = (Inr (), room, w)"
| "run_effects (Save # effects) room w =
     run_effects effects room (w\<lparr>driver := listing_save (listing (data room)) (driver w)\<rparr>)"
| "run_effects (Emit event # effects) room w =
     (case room_emit event room w of
        (Inl e, room', w') \<Rightarrow> (Inl e, room', w')
      | (Inr u, room', w') \<Rightarrow> run_effects effects room' w')"

text \<open>
  Modelled from the spec: \<open>room[m].apply(room, args)\<close> in the state of the process.
  The method runs, and what it did outside the room takes effect; an error of a
  callback is the error of the call.
\<close>

definition room_run ::
  "Room \<Rightarrow> string \<Rightarrow> jsval list \<Rightarrow> MatchMaker \<Rightarrow> (error + jsval) \<times> Room \<times> MatchMaker" where
  "room_run room m args w =
     (case room_apply room m args of
        (res, room1, effects) \<Rightarrow>
          (case run_effects effects room1 w of
             (Inl e, room2, w') \<Rightarrow> (Inl e, room2, w')
           | (Inr u, room2, w') \<Rightarrow> (res, room2, w')))"

text \<open>
  Modelled from the spec: the same for the room that \<open>localRooms\<close> holds under \<open>rid\<close>.
  The room is an object held by reference, so the handle shows the room as the call
  leaves it, unless the call dropped the handle (\<open>disposeRoom\<close>).
\<close>

definition room_call ::
  "string \<Rightarrow> Room \<Rightarrow> string \<Rightarrow> jsval list \<Rightarrow> MatchMaker \<Rightarrow> (error + jsval) \<times> MatchMaker" where
  "room_call rid room m args w =
     (case room_run room m args w of
        (res, room', w') \<Rightarrow>
          (res, case localRooms w' rid of
                  None \<Rightarrow> w'
                | Some held \<Rightarrow> w'\<lparr>localRooms := (localRooms w')(rid \<mapsto> room')\<rparr>))"

subsection \<open>Remote room call\<close>

text \<open>
  The branch for a room that is not local builds a promise whose executor subscribes
  the reply channel, publishes the request and sets the timer (\<open>remoteRoomCall_send\<close>).
  The promise settles in the subscription's callback (\<open>on_reply\<close>) or in the timer's
  (\<open>on_timeout\<close>); both run the closure \<open>unsubscribe\<close>. The handle \<open>unsubscribeTimeout\<close>
  of the timer is named by the reply channel. A reply carries one of the two IPC
  codes, so one of the two branches of the callback settles the promise. The optional
  fourth argument of \<open>remoteRoomCall\<close> is \<open>timeout\<close> here, and \<open>rejectionTimeout\<close> its value
  after the default. The branch for a local room reads the property, or applies the
  method with \<open>room_call\<close>.
\<close>

definition unsubscribe :: "string \<Rightarrow> MatchMaker \<Rightarrow> MatchMaker" where
  "unsubscribe channel w =
     clearTimeout channel (w\<lparr>presence := presence_unsubscribe channel (presence w)\<rparr>)"

definition remoteRoomCall_send ::
  "string \<Rightarrow> string \<Rightarrow> jsval list option \<Rightarrow> jsnum \<Rightarrow> MatchMaker \<Rightarrow> string \<times> MatchMaker" where
  "remoteRoomCall_send rid method args rejectionTimeout w =
     (let (requestId, w1) = generateId w;
          channel = rid @ '':'' @ requestId;
          w2 = w1\<lparr>presence := presence_subscribe channel ReplyHandler (presence w1)\<rparr>;
          w3 = w2\<lparr>presence :=
                  presence_publish (getRoomChannel rid) (Request method requestId args) (presence w2)\<rparr>
      in (channel, setTimeout channel rejectionTimeout w3))"

definition on_reply ::
  "string \<Rightarrow> IpcProtocol \<times> (jsval \<times> jsval) \<Rightarrow> MatchMaker \<Rightarrow> (error + jsval \<times> jsval) \<times> MatchMaker" where
  "on_reply channel message w =
     (case message of
        (SUCCESS, payload) \<Rightarrow> (Inr payload, unsubscribe channel w)
      | (ERROR, payload) \<Rightarrow> (Inl (RemoteRejection payload), unsubscribe channel w))"

definition on_timeout ::
  "string \<Rightarrow> string \<Rightarrow> jsval list option \<Rightarrow> jsnum \<Rightarrow> string \<Rightarrow> MatchMaker
     \<Rightarrow> (error + jsval \<times> jsval) \<times> MatchMaker" where
  "on_timeout rid method args rejectionTimeout channel w =
     (let w1 = unsubscribe channel w;
          request = method @ (case args of None \<Rightarrow> [] | Some a \<Rightarrow> '' with args '' @ JSON_stringify w a)
      in (Inl (Error (''remote room ('' @ rid @ '') timed out, requesting \"'' @ request @ ''\". '' @
                      ''Timeout setting: '' @ string_of_jsnum rejectionTimeout @ ''ms'')), w1))"

definition remoteRoomCall ::
  "string \<Rightarrow> string \<Rightarrow> jsval list option \<Rightarrow> jsnum option \<Rightarrow> MatchMaker
     \<Rightarrow> (error + jsval \<times> jsval) \<times> MatchMaker" where
  "remoteRoomCall rid method args timeout w =
     (let rejectionTimeout = (case timeout of None \<Rightarrow> REMOTE_ROOM_SHORT_TIMEOUT w | Some t \<Rightarrow> t)
      in case localRooms w rid of
        None \<Rightarrow>
          (let (channel, w1) = remoteRoomCall_send rid method args rejectionTimeout w
           in case network w1 of
                Some message # rest \<Rightarrow> on_reply channel message (w1\<lparr>network := rest\<rparr>)
              | None # rest \<Rightarrow>
                  on_timeout rid method args rejectionTimeout channel
                    (timer_fires channel (w1\<lparr>network := rest\<rparr>))
              | [] \<Rightarrow>
                  on_timeout rid method args rejectionTimeout channel (timer_fires channel w1))
      | Some room \<Rightarrow>
          (case (args, room_member room method) of
             (None, Value v) \<Rightarrow> (Inr (processId w, v), w)
           | _ \<Rightarrow>
               (case room_call rid room method (case args of None \<Rightarrow> [] | Some a \<Rightarrow> a) w of
                  (Inl e, w') \<Rightarrow> (Inl e, w')
                | (Inr v, w') \<Rightarrow> (Inr (processId w, v), w'))))"

subsection \<open>Seat reservation\<close>

definition reserveSeatFor ::
  "RoomListingData \<Rightarrow> jsobj \<Rightarrow> MatchMaker \<Rightarrow> (error + RoomListingData \<times> jsval) \<times> MatchMaker" where
  "reserveSeatFor room opts w =
     (let (sid, w1) = generateId w
      in case remoteRoomCall (RoomListingData.roomId room) ''_reserveSeat''
                (Some [JStr sid, JObj opts]) None w1 of
           (Inl e, w2) \<Rightarrow> (Inl e, w2)
         | (Inr (pid, reserveSeatSuccessful), w2) \<Rightarrow>
             if \<not> truthy reserveSeatSuccessful
             then (Inl (SeatReservationError (RoomListingData.roomId room @ '' is already full.'')), w2)
             else (Inr (room, JStr sid), w2))"

subsection \<open>Admission gate and room selection\<close>

text \<open>
  \<open>awaitRoomAvailable\<close> runs its callback in the callback of a timer it sets with the
  delay \<open>concurrencyTimeout\<close>: when the callback starts, that delay has elapsed.
\<close>

definition awaitRoomAvailable ::
  "string \<Rightarrow> (MatchMaker \<Rightarrow> (error + 'a) \<times> MatchMaker) \<Rightarrow> MatchMaker \<Rightarrow> (error + 'a) \<times> MatchMaker" where
  "awaitRoomAvailable roomToJoin callback w =
     (let concurrencyKey = getHandlerConcurrencyKey roomToJoin;
          (n, p1) = presence_incr concurrencyKey (presence w);
          concurrency = n - 1;
          concurrencyTimeout = Math_min (Num (concurrency * 100)) (REMOTE_ROOM_SHORT_TIMEOUT w);
          w1 = w\<lparr>presence := p1, elapsed := elapsed w @ [concurrencyTimeout]\<rparr>;
          (result, w2) = callback w1;
          (m, p2) = presence_decr concurrencyKey (presence w2)
      in (result, w2\<lparr>presence := p2\<rparr>))"

definition queryRoom ::
  "string \<Rightarrow> jsobj \<Rightarrow> MatchMaker \<Rightarrow> (error + RoomListingData option) \<times> MatchMaker" where
  "queryRoom rname opts w =
     awaitRoomAvailable rname
       (\<lambda>w'. case handlers w' rname of
                None \<Rightarrow>
                  (Inl (MatchMakeError (''no available handler for \"'' @ rname @ ''\"'')
                          ERR_MATCHMAKE_NO_HANDLER), w')
              | Some handler \<Rightarrow>
                  (Inr (driver_findOne
                          (spread [(''locked'', JBool False), (''name'', JStr rname)]
                             (getFilterOptions handler opts))
                          (sortOptions handler) (driver w')), w'))
       w"

subsection \<open>Room creation\<close>

text \<open>
  Modelled from the spec: \<open>merge\<close> comes from \<open>./Utils\<close>, which is not part of the
  sources at hand. The spec describes \<open>merge(clientOptions, handler.defaultOptions)\<close>:
  here the properties of both are assigned, in that order, onto the first argument.
\<close>

definition merge :: "jsobj \<Rightarrow> jsobj \<Rightarrow> jsobj \<Rightarrow> jsobj" where
  "merge a b c = spread (spread a b) c"

text \<open>
  The truthiness of \<open>room.onCreate\<close>, and \<open>createRoom\<close>. \<open>onCreate\<close> runs before
  \<open>createRoom\<close> registers its callbacks with \<open>room.on\<close> and \<open>room.once\<close>, so the events
  that \<open>onCreate\<close> emits reach none of them. The room's reference to the shared
  presence is the presence of the state.
\<close>

definition member_truthy :: "member \<Rightarrow> bool" where
  "member_truthy m = (case m of Value v \<Rightarrow> truthy v | Function f \<Rightarrow> True)"

definition createRoom ::
  "string \<Rightarrow> jsobj \<Rightarrow> MatchMaker \<Rightarrow> (error + RoomListingData) \<times> MatchMaker" where
  "createRoom rname clientOptions w =
     (case handlers w rname of
        None \<Rightarrow> (Inl (TypeError ''Cannot read property 'klass' of undefined''), w)
      | Some registeredHandler \<Rightarrow>
          (let room0 = klass registeredHandler;
               (rid, w1) = generateId w;
               room1 = room0\<lparr>data := (data room0)
                         \<lparr>RoomData.roomId := rid,
                          roomName := rname,
                          listing := createInstance
                            (spread [(''name'', JStr rname), (''processId'', processId w1)]
                               (getFilterOptions registeredHandler clientOptions))\<rparr>\<rparr>
           in case (if member_truthy (room_member room1 ''onCreate'')
                    then room_run room1 ''onCreate''
                           [JObj (merge [] clientOptions (options registeredHandler))] w1
                    else (Inr JUndefined, room1, w1)) of
                (Inl e, room2, w2) \<Rightarrow>
                  (Inl (MatchMakeError (message_of e) ERR_MATCHMAKE_UNHANDLED), w2)
              | (Inr r, room2, w2) \<Rightarrow>
                  (let d3 = (data room2)\<lparr>internalState := CREATED\<rparr>;
                       d4 = d3\<lparr>listing := (listing d3)
                              \<lparr>RoomListingData.roomId := RoomData.roomId d3,
                               RoomListingData.maxClients := RoomData.maxClients d3\<rparr>\<rparr>;
                       d5 = d4\<lparr>listeners := listeners d4 @
                              [(''lock'', False, LockRoom rname),
                               (''unlock'', False, UnlockRoom rname),
                               (''join'', False, OnClientJoinRoom),
                               (''leave'', False, OnClientLeaveRoom),
                               (''dispose'', True, DisposeRoom rname),
                               (''disconnect'', True, RemoveAllListeners)]\<rparr>;
                       room5 = room2\<lparr>data := d5\<rparr>;
                       (ok, w3) = createRoomReferences room5 True w2;
                       w4 = w3\<lparr>driver := listing_save (listing d5) (driver w3)\<rparr>;
                       (emitted_create, w5) = handler_emit rname ''create'' room5 w4
                   in (Inr (listing d5), w5))))"

subsection \<open>Public operations\<close>


text \<open>The function that \<open>joinOrCreate\<close> passes to \<open>retry\<close>.\<close>

definition joinOrCreate_attempt ::
  "string \<Rightarrow> jsobj \<Rightarrow> MatchMaker \<Rightarrow> (error + RoomListingData \<times> jsval) \<times> MatchMaker" where
  "joinOrCreate_attempt rname opts w =
     (case queryRoom rname opts w of
        (Inl e, w1) \<Rightarrow> (Inl e, w1)
      | (Inr (Some room), w1) \<Rightarrow> reserveSeatFor room opts w1
      | (Inr None, w1) \<Rightarrow>
          (case createRoom rname opts w1 of
             (Inl e, w2) \<Rightarrow> (Inl e, w2)
           | (Inr room, w2) \<Rightarrow> reserveSeatFor room opts w2))"


definition joinById ::
  "string \<Rightarrow> jsobj \<Rightarrow> MatchMaker \<Rightarrow> (error + RoomListingData \<times> jsval) \<times> MatchMaker" where
  "joinById rid opts w =
     (case driver_findOne [(''roomId'', JStr rid)] None (driver w) of
        Some room \<Rightarrow>
          (let rejoinSessionId = get_prop opts ''sessionId''
           in if truthy rejoinSessionId
              then (case remoteRoomCall (RoomListingData.roomId room) ''hasReservedSeat''
                          (Some [rejoinSessionId]) None w of
                      (Inl e, w1) \<Rightarrow> (Inl e, w1)
                    | (Inr (pid, hasReservedSeat), w1) \<Rightarrow>
                        if truthy hasReservedSeat
                        then (Inr (room, rejoinSessionId), w1)
                        else (Inl (MatchMakeError ''session expired'' ERR_MATCHMAKE_EXPIRED), w1))
              else if \<not> locked room
              then reserveSeatFor room opts w
              else (Inl (MatchMakeError (''room \"'' @ rid @ ''\" is locked'')
                          ERR_MATCHMAKE_INVALID_ROOM_ID), w))
      | None \<Rightarrow>
          (Inl (MatchMakeError (''room \"'' @ rid @ ''\" not found'')
                  ERR_MATCHMAKE_INVALID_ROOM_ID), w))"

text \<open>
  \<open>query\<close> receives its conditions by reference: an address in the store of objects,
  or nothing, in which case the default \<open>{}\<close> is a new object.
\<close>

definition assign_field :: "nat \<Rightarrow> string \<Rightarrow> jsval \<Rightarrow> MatchMaker \<Rightarrow> MatchMaker" where
  "assign_field a k v w = w\<lparr>objects := (objects w)[a := set_prop (objects w ! a) k v]\<rparr>"

definition query :: "string option \<Rightarrow> nat option \<Rightarrow> MatchMaker \<Rightarrow> RoomListingData list \<times> MatchMaker" where
  "query rname conditions w =
     (let (c, w0) = (case conditions of
                       Some a \<Rightarrow> (a, w)
                     | None \<Rightarrow> (length (objects w), w\<lparr>objects := objects w @ [[]]\<rparr>));
          w1 = (case rname of
                  None \<Rightarrow> w0
                | Some n \<Rightarrow> if n \<noteq> [] then assign_field c ''name'' (JStr n) w0 else w0);
          w2 = assign_field c ''private'' (JBool False) w1
      in (driver_find (objects w2 ! c) (driver w2), w2))"

definition getRoomById :: "string \<Rightarrow> MatchMaker \<Rightarrow> Room option" where
  "getRoomById rid w = localRooms w rid"

section \<open>The WebSocket transport: room-join path\<close>

text \<open>
  Modelled from the spec: the client connection (\<open>Client\<close>) and the framing of
  messages (\<open>send\<close>, from \<open>../Protocol\<close>) are not part of the sources at hand. A client
  has the fields the handler assigns, the frames sent to it and the code it was
  closed with; \<open>send[Protocol.JOIN_ERROR](client, message)\<close> is recorded as the frame of
  that kind with its message.
\<close>

record Client =
  pingCount :: nat
  client_id :: jsval
  sessionId :: jsval
  sent :: "(Protocol \<times> string) list"
  closed :: "Protocol option"

text \<open>
  The character class \<open>[a-zA-Z0-9_\-]\<close> and the match of
  \<open>/\/[a-zA-Z0-9_\-]+\/([a-zA-Z0-9_\-]+)$/\<close> on the path: the group is the longest run of
  such characters at the end of the path, which must follow a \<open>/\<close> that follows
  another such run and another \<open>/\<close>.
\<close>

definition room_id_char :: "char \<Rightarrow> bool" where
  "room_id_char c =
     (let n = (of_char c :: nat)
      in (97 \<le> n \<and> n \<le> 122) \<or> (65 \<le> n \<and> n \<le> 90) \<or> (48 \<le> n \<and> n \<le> 57)
         \<or> c = CHR ''_'' \<or> c = CHR ''-'')"

definition match_process_and_room_id :: "string \<Rightarrow> string option" where
  "match_process_and_room_id pathname =
     (let r = rev pathname;
          g = takeWhile room_id_char r;
          r1 = dropWhile room_id_char r
      in if g = [] then None
         else case r1 of
                [] \<Rightarrow> None
              | c # r2 \<Rightarrow>
                  if c \<noteq> CHR ''/'' then None
                  else (let q = takeWhile room_id_char r2;
                            r3 = dropWhile room_id_char r2
                        in if q = [] then None
                           else case r3 of
                                  [] \<Rightarrow> None
                                | d # r4 \<Rightarrow> if d = CHR ''/'' then Some (rev g) else None))"

text \<open>
  \<open>handleMatchJoin\<close>, given the path and the \<open>sessionId\<close> of the query string. A path
  that does not match gives the room id \<open>null\<close>, which indexes \<open>localRooms\<close> as the key
  \<open>null\<close>. The call \<open>room._onJoin(client, upgradeReq)\<close> is inside the \<open>try\<close>: on a room
  that is \<open>undefined\<close> it throws a \<open>TypeError\<close>, which the \<open>catch\<close> handles like an error
  that \<open>_onJoin\<close> throws; the text of that \<open>TypeError\<close> is the runtime's. The room's
  method receives the session id that the handler has just assigned to the client.
\<close>

definition handleMatchJoin :: "Client \<Rightarrow> string \<Rightarrow> jsval \<Rightarrow> MatchMaker \<Rightarrow> Client \<times> MatchMaker" where
  "handleMatchJoin client pathname sid w =
     (let processAndRoomId = match_process_and_room_id pathname;
          rid = (case processAndRoomId of None \<Rightarrow> ''null'' | Some g \<Rightarrow> g);
          room = getRoomById rid w;
          client1 = client\<lparr>pingCount := 0, client_id := sid, sessionId := sid\<rparr>;
          (joined, w1) =
            (case room of
               None \<Rightarrow> (Inl (TypeError ''Cannot read property '_onJoin' of undefined''), w)
             | Some r \<Rightarrow> room_call rid r ''_onJoin'' [sid] w)
      in case joined of
           Inr v \<Rightarrow> (client1, w1)
         | Inl e \<Rightarrow>
             (client1\<lparr>sent := sent client1 @ [(JOIN_ERROR, message_of e)],
                      closed := Some WS_CLOSE_WITH_ERROR\<rparr>, w1))"

section \<open>An example deployment\<close>

text \<open>
  A process \<open>p1\<close> with a handler for the room type \<open>chat\<close> and one local room \<open>r1\<close>; the
  registry also lists the room \<open>r2\<close> of another process \<open>p2\<close>. The theorems below are
  instantiated on it.
\<close>

definition example_listing :: RoomListingData where
  "example_listing =
     \<lparr> RoomListingData.roomId = ''r1'', name = ''chat'', RoomListingData.processId = JStr ''p1'',
       locked = False, private = False, RoomListingData.maxClients = JNum 2, clients = 0,
       filterFields = [] \<rparr>"

definition remote_listing :: RoomListingData where
  "remote_listing =
     example_listing\<lparr>RoomListingData.roomId := ''r2'', RoomListingData.processId := JStr ''p2''\<rparr>"

text \<open>
  Modelled from the spec: the room class of \<open>chat\<close>, a room that locks when it is full
  at 2 clients, as in the spec's scenarios. \<open>_reserveSeat\<close> refuses when the listing
  counts as many clients as the room admits; otherwise it counts the client in the
  listing, locks the room when it is full then (the listing is marked locked and
  \<open>lock\<close> is emitted), and saves the listing. \<open>chat_klass\<close> is the room as the
  constructor yields it, \<open>example_room\<close> the room \<open>r1\<close> as \<open>createRoom\<close> leaves it.
\<close>

definition hasReachedMaxClients :: "RoomData \<Rightarrow> bool" where
  "hasReachedMaxClients d =
     (case RoomData.maxClients d of JNum m \<Rightarrow> m \<le> int (clients (listing d)) | _ \<Rightarrow> False)"

definition chat_reserveSeat :: room_method where
  "chat_reserveSeat args d =
     (if hasReachedMaxClients d then (Inr (JBool False), d, [])
      else (let d1 = d\<lparr>listing := (listing d)\<lparr>clients := Suc (clients (listing d))\<rparr>\<rparr>
            in if hasReachedMaxClients d1
               then (Inr (JBool True), d1\<lparr>listing := (listing d1)\<lparr>locked := True\<rparr>\<rparr>,
                     [Emit ''lock'', Save])
               else (Inr (JBool True), d1, [Save])))"

definition chat_klass :: Room where
  "chat_klass =
     \<lparr> data = \<lparr> RoomData.roomId = [], roomName = [], RoomData.maxClients = JNum 2,
                internalState = CREATING, listing = createInstance [],
                props = [''mode'' \<mapsto> JStr ''duel''], listeners = [] \<rparr>,
       methods = [''_reserveSeat'' \<mapsto> chat_reserveSeat,
                  ''hasReservedSeat'' \<mapsto> (\<lambda>args d. (Inr (JBool (args = [JStr ''s1''])), d, [])),
                  ''_onJoin'' \<mapsto> (\<lambda>args d. (Inl ''seat reservation expired'', d, []))] \<rparr>"

definition example_room :: Room where
  "example_room =
     chat_klass\<lparr>data := (data chat_klass)
       \<lparr>RoomData.roomId := ''r1'', roomName := ''chat'', internalState := CREATED,
        listing := example_listing,
        listeners := [(''lock'', False, LockRoom ''chat''),
                      (''unlock'', False, UnlockRoom ''chat''),
                      (''join'', False, OnClientJoinRoom),
                      (''leave'', False, OnClientLeaveRoom),
                      (''dispose'', True, DisposeRoom ''chat''),
                      (''disconnect'', True, RemoveAllListeners)]\<rparr>\<rparr>"

definition example_handler :: RegisteredHandler where
  "example_handler =
     \<lparr> klass = chat_klass, options = [], getFilterOptions = (\<lambda>opts. []),
       sortOptions = None, emitted = [] \<rparr>"

definition example_state :: MatchMaker where
  "example_state =
     \<lparr> handlers = [''chat'' \<mapsto> example_handler],
       processId = JStr ''p1'',
       localRooms = [''r1'' \<mapsto> example_room],
       presence = \<lparr> subscriptions = [(''$r1'', RoomChannelHandler)], published = [],
                    members = (\<lambda>k. {})(''chat'' := {''r1''}), keys = Map.empty \<rparr>,
       driver = [example_listing, remote_listing],
       isGracefullyShuttingDown = False,
       COLYSEUS_PRESENCE_SHORT_TIMEOUT = None,
       idgen = (\<lambda>n. replicate (Suc n) CHR ''a''),
       generated = 0,
       JSON_stringify = (\<lambda>a. ''[...]''),
       network = [],
       timers = [],
       elapsed = [],
       objects = [] \<rparr>"

text \<open>
  The same process with the environment variable set to 500 and ten admissions of
  \<open>chat\<close> in flight.
\<close>

definition busy_state :: MatchMaker where
  "busy_state =
     example_state\<lparr>COLYSEUS_PRESENCE_SHORT_TIMEOUT := Some (Num 500),
                   presence := (presence example_state)\<lparr>keys := [''chat:c'' \<mapsto> 10]\<rparr>\<rparr>"

text \<open>
  The same process when the presence holds a key named by the room id \<open>r1\<close> (the
  source calls it the list of connecting clients where it deletes the key).
\<close>

definition keyed_state :: MatchMaker where
  "keyed_state =
     example_state\<lparr>presence := (presence example_state)\<lparr>keys := [''r1'' \<mapsto> 3]\<rparr>\<rparr>"

text \<open>Callbacks for the admission gate: one that throws and one that returns.\<close>

definition failing_callback :: "MatchMaker \<Rightarrow> (error + unit) \<times> MatchMaker" where
  "failing_callback w = (Inl (Error ''failed''), w)"

definition idle_callback :: "MatchMaker \<Rightarrow> (error + unit) \<times> MatchMaker" where
  "idle_callback w = (Inr (), w)"

text \<open>
  A registry with a locked public room and a private room, and a caller of \<open>query\<close>
  that holds an empty conditions object at address 0.
\<close>

definition query_state :: MatchMaker where
  "query_state =
     example_state\<lparr>driver := [example_listing\<lparr>locked := True\<rparr>, remote_listing\<lparr>private := True\<rparr>],
                   objects := [[]]\<rparr>"

text \<open>
  A registry with only the remote room \<open>r2\<close>, whose process will answer the next two
  remote calls: first that no seat is left, then that a seat is reserved.
\<close>

definition full_state :: MatchMaker where
  "full_state =
     example_state\<lparr>driver := [remote_listing],
                   network := [Some (SUCCESS, (JStr ''p2'', JBool False)),
                               Some (SUCCESS, (JStr ''p2'', JBool True))]\<rparr>"

text \<open>The same registry when the process of \<open>r2\<close> will answer seven times that no seat is left.\<close>

definition exhausted_state :: MatchMaker where
  "exhausted_state =
     example_state\<lparr>driver := [remote_listing],
                   network := replicate 7 (Some (SUCCESS, (JStr ''p2'', JBool False)))\<rparr>"

section \<open>Properties\<close>

subsection \<open>Auxiliary facts\<close>

lemmas collaborator_defs =
  get_prop_def spread_def field_of_def matches_def driver_find_def driver_findOne_def
  createInstance_def listing_save_def listing_remove_def room_member_def room_apply_def
  presence_subscribe_def presence_unsubscribe_def presence_publish_def presence_sadd_def
  presence_srem_def counter_def presence_incr_def presence_decr_def presence_del_def

lemmas matchmaker_defs =
  REMOTE_ROOM_SHORT_TIMEOUT_def generateId_def getRoomChannel_def getHandlerConcurrencyKey_def
  setTimeout_def clearTimeout_def timer_fires_def unsubscribe_def remoteRoomCall_send_def
  on_reply_def on_timeout_def remoteRoomCall_def reserveSeatFor_def awaitRoomAvailable_def
  queryRoom_def createRoomReferences_def clearRoomReferences_def handler_emit_def lockRoom_def
  unlockRoom_def onClientJoinRoom_def onClientLeaveRoom_def disposeRoom_def run_listener_def
  room_emit_def room_run_def room_call_def merge_def member_truthy_def createRoom_def
  joinOrCreate_attempt_def joinById_def assign_field_def query_def getRoomById_def

lemmas example_defs =
  example_listing_def remote_listing_def hasReachedMaxClients_def chat_reserveSeat_def
  chat_klass_def example_room_def example_handler_def example_state_def busy_state_def
  keyed_state_def failing_callback_def idle_callback_def query_state_def full_state_def
  exhausted_state_def

lemma filter_fresh: "c \<notin> fst ` set xs \<Longrightarrow> filter (\<lambda>(h, d). h \<noteq> c) xs = xs"
  by (induction xs) auto


lemma handler_emit_error_class:
  "handler_emit rname event room w = (Inl e, w') \<Longrightarrow> constructor_of e = TypeError_class"
  by (auto simp add: handler_emit_def split: option.splits)


lemma run_listener_error_class:
  assumes "run_listener l room w = (Inl e, room', w')"
  shows "constructor_of e = TypeError_class"
proof (cases l)
  case (DisposeRoom rname)
  then show ?thesis
    using assms
    by (auto simp add: run_listener_def disposeRoom_def Let_def
          dest: handler_emit_error_class split: prod.splits sum.splits)
qed (use assms in \<open>auto simp add: run_listener_def lockRoom_def onClientJoinRoom_def
       onClientLeaveRoom_def dest: handler_emit_error_class split: prod.splits\<close>)


lemma run_listeners_error_class:
  "run_listeners ls room w = (Inl e, room', w') \<Longrightarrow> constructor_of e = TypeError_class"
proof (induction ls room w rule: run_listeners.induct)
  case (1 room w)
  then show ?case by simp
next
  case (2 event once l rest room w)
  let ?room1 = "if once
                then room\<lparr>data := (data room)
                       \<lparr>listeners := remove1 (event, once, l) (listeners (data room))\<rparr>\<rparr>
                else room"
  obtain r1 room2 w1 where step: "run_listener l ?room1 w = (r1, room2, w1)"
    by (cases "run_listener l ?room1 w")
  show ?case
  proof (cases r1)
    case (Inl e1)
    then show ?thesis
      using "2.prems" step run_listener_error_class [of l ?room1 w e1 room2 w1]
      by (simp add: Let_def)
  next
    case (Inr u)
    then have "run_listeners rest room2 w1 = (Inl e, room', w')"
      using "2.prems" step by (simp add: Let_def)
    from "2.IH" [OF refl step [symmetric] Inr refl this] show ?thesis
      by auto
  qed
qed


lemma run_effects_error_class:
  "run_effects effects room w = (Inl e, room', w') \<Longrightarrow> constructor_of e = TypeError_class"
proof (induction effects room w rule: run_effects.induct)
  case (1 room w)
  then show ?case by simp
next
  case (2 effects room w)
  then show ?case by simp
next
  case (3 event effects room w)
  obtain r1 room1 w1 where step: "room_emit event room w = (r1, room1, w1)"
    by (cases "room_emit event room w")
  show ?case
  proof (cases r1)
    case (Inl e1)
    then show ?thesis
      using "3.prems" step run_listeners_error_class [of _ room w e1 room1 w1]
      by (simp add: room_emit_def)
  next
    case (Inr u)
    then have "run_effects effects room1 w1 = (Inl e, room', w')"
      using "3.prems" step by simp
    from "3.IH" [OF step [symmetric] _ _ this] Inr show ?thesis
      by auto
  qed
qed


lemma room_apply_error_class:
  "room_apply room m args = (Inl e, room', effects) \<Longrightarrow>
     constructor_of e \<noteq> SeatReservationError_class"
  by (auto simp add: room_apply_def split: member.splits prod.splits sum.splits)


lemma room_call_error_class:
  assumes "room_call rid room m args w = (Inl e, w')"
  shows "constructor_of e \<noteq> SeatReservationError_class"
proof -
  obtain res room1 effects where app: "room_apply room m args = (res, room1, effects)"
    by (cases "room_apply room m args")
  obtain r2 room2 w2 where eff: "run_effects effects room1 w = (r2, room2, w2)"
    by (cases "run_effects effects room1 w")
  show ?thesis
  proof (cases r2)
    case (Inl e2)
    then have "e = e2"
      using assms app eff by (simp add: room_call_def room_run_def)
    then show ?thesis
      using run_effects_error_class [of effects room1 w e2 room2 w2] eff Inl by simp
  next
    case (Inr u)
    then have "res = Inl e"
      using assms app eff by (simp add: room_call_def room_run_def)
    then show ?thesis
      using room_apply_error_class app by blast
  qed
qed

lemma remoteRoomCall_error_class:
  assumes "remoteRoomCall rid method args timeout w = (Inl e, w')"
  shows "constructor_of e \<noteq> SeatReservationError_class"
proof (cases "localRooms w rid")
  case None
  with assms show ?thesis
    by (auto simp add: remoteRoomCall_def Let_def remoteRoomCall_send_def
          on_reply_def on_timeout_def
          split: prod.splits option.splits list.splits IpcProtocol.splits)
next
  case (Some room)
  with assms show ?thesis
    by (auto simp add: remoteRoomCall_def Let_def dest: room_call_error_class
          split: prod.splits option.splits member.splits sum.splits)
qed


lemma room_call_no_effect:
  assumes "room_apply room m args = (res, room, [])" and "localRooms w rid = Some room"
  shows "room_call rid room m args w = (res, w)"
  using assms by (simp add: room_call_def room_run_def fun_upd_idem)

lemma queryRoom_result:
  "fst (queryRoom rname opts w) =
     (case handlers w rname of
        None \<Rightarrow>
          Inl (MatchMakeError (''no available handler for \"'' @ rname @ ''\"'')
                 ERR_MATCHMAKE_NO_HANDLER)
      | Some handler \<Rightarrow>
          Inr (driver_findOne
                 (spread [(''locked'', JBool False), (''name'', JStr rname)]
                    (getFilterOptions handler opts))
                 (sortOptions handler) (driver w)))"
  by (simp add: queryRoom_def awaitRoomAvailable_def Let_def presence_incr_def presence_decr_def
        split: option.splits)

text \<open>Calls of a method of a room that \<open>localRooms\<close> holds.\<close>

lemma room_call_save:
  assumes "room_apply room m args = (res, room', [Save])" and "localRooms w rid = Some room"
  shows "room_call rid room m args w =
           (res, w\<lparr>localRooms := (localRooms w)(rid \<mapsto> room'),
                   driver := listing_save (listing (data room')) (driver w)\<rparr>)"
  using assms by (simp add: room_call_def room_run_def)

lemma remoteRoomCall_held:
  assumes "localRooms w rid = Some room"
  shows "remoteRoomCall rid m (Some a) t w =
           (case room_call rid room m a w of
              (Inl e, w') \<Rightarrow> (Inl e, w')
            | (Inr v, w') \<Rightarrow> (Inr (processId w, v), w'))"
  using assms by (simp add: remoteRoomCall_def split: member.splits)

text \<open>The seat reservations of the example room while it fills up.\<close>

lemma chat_reserveSeat_first:
  "room_apply example_room ''_reserveSeat'' args =
     (Inr (JBool True),
      example_room\<lparr>data := (data example_room)\<lparr>listing := example_listing\<lparr>clients := 1\<rparr>\<rparr>\<rparr>,
      [Save])"
  by (simp add: room_apply_def room_member_def example_room_def chat_klass_def
        chat_reserveSeat_def hasReachedMaxClients_def example_listing_def Let_def)

lemma chat_reserveSeat_second:
  "room_apply
     (example_room\<lparr>data := (data example_room)\<lparr>listing := example_listing\<lparr>clients := 1\<rparr>\<rparr>\<rparr>)
     ''_reserveSeat'' args =
     (Inr (JBool True),
      example_room\<lparr>data := (data example_room)
        \<lparr>listing := example_listing\<lparr>clients := 2, locked := True\<rparr>\<rparr>\<rparr>,
      [Emit ''lock'', Save])"
  by (simp add: room_apply_def room_member_def example_room_def chat_klass_def
        chat_reserveSeat_def hasReachedMaxClients_def example_listing_def Let_def)

lemma chat_reserveSeat_third:
  "room_apply
     (example_room\<lparr>data := (data example_room)
        \<lparr>listing := example_listing\<lparr>clients := 2, locked := True\<rparr>\<rparr>\<rparr>)
     ''_reserveSeat'' args =
     (Inr (JBool False),
      example_room\<lparr>data := (data example_room)
        \<lparr>listing := example_listing\<lparr>clients := 2, locked := True\<rparr>\<rparr>\<rparr>,
      [])"
  by (simp add: room_apply_def room_member_def example_room_def chat_klass_def
        chat_reserveSeat_def hasReachedMaxClients_def example_listing_def Let_def)

lemma example_room_emit_lock:
  assumes "listeners (data room) = listeners (data example_room)"
    and "roomName (data room) = ''chat''" and "RoomData.roomId (data room) = ''r1''"
  shows "room_emit ''lock'' room w =
           (case handlers w ''chat'' of
              None \<Rightarrow>
                (Inl (TypeError ''Cannot read property 'emit' of undefined''), room,
                 clearRoomReferences room w)
            | Some h \<Rightarrow>
                (Inr (), room,
                 w\<lparr>presence := (presence w)
                      \<lparr>members := (members (presence w))
                          (''chat'' := members (presence w) ''chat'' - {''r1''}),
                       keys := (keys (presence w))(''r1'' := None)\<rparr>,
                   handlers := (handlers w)
                     (''chat'' \<mapsto> h\<lparr>emitted := emitted h @ [(''lock'', ''r1'')]\<rparr>)\<rparr>))"
  using assms
  by (simp add: room_emit_def example_room_def run_listener_def lockRoom_def
        clearRoomReferences_def handler_emit_def presence_srem_def presence_del_def
        split: option.splits)

lemma driver_findOne_roomId:
  "driver_findOne [(''roomId'', JStr rid)] None registry =
     List.find (\<lambda>l. RoomListingData.roomId l = rid) registry"
  by (induction registry)
     (auto simp add: driver_findOne_def driver_find_def matches_def field_of_def get_prop_def
        split: list.splits)

lemma get_prop_set_prop:
  "get_prop (set_prop ps k v) k' = (if k' = k then v else get_prop ps k')"
  by (induction ps) (auto simp add: get_prop_def)

lemma keys_set_prop: "fst ` set (set_prop ps k v) = insert k (fst ` set ps)"
  by (induction ps) force+

lemma matches_iff:
  "matches conditions l \<longleftrightarrow> (\<forall>k \<in> fst ` set conditions. field_of l k = get_prop conditions k)"
  by (auto simp add: matches_def list_all_iff)

lemma field_of_locked_update:
  "k \<noteq> ''locked'' \<Longrightarrow> field_of (l\<lparr>locked := b\<rparr>) k = field_of l k"
  by (simp add: field_of_def)

lemma matches_locked_irrelevant:
  assumes "''locked'' \<notin> fst ` set conditions"
  shows "matches conditions (l\<lparr>locked := b\<rparr>) = matches conditions l"
proof -
  have "field_of (l\<lparr>locked := b\<rparr>) k = field_of l k" if "k \<in> fst ` set conditions" for k
    using that assms by (intro field_of_locked_update) blast
  then show ?thesis
    by (simp add: matches_iff)
qed

lemma query_result:
  assumes "c < length (objects w)"
  shows "objects (snd (query rname (Some c) w)) =
           (objects w)[c := set_prop
              (case rname of
                 None \<Rightarrow> objects w ! c
               | Some n \<Rightarrow> if n \<noteq> [] then set_prop (objects w ! c) ''name'' (JStr n) else objects w ! c)
              ''private'' (JBool False)]"
    and "fst (query rname (Some c) w) =
           driver_find (objects (snd (query rname (Some c) w)) ! c) (driver w)"
    and "snd (query rname (Some c) w) = w\<lparr>objects := objects (snd (query rname (Some c) w))\<rparr>"
  using assms
  by (auto simp add: query_def assign_field_def Let_def split: option.splits)




subsection \<open>Join or create\<close>



subsection \<open>Join by room id\<close>

text \<open>
  Claim C2. For every room id and options, \<open>joinById\<close> behaves by this case analysis
  on the first listing of the registry with that room id. No listing has it: it fails
  with \<open>ERR_MATCHMAKE_INVALID_ROOM_ID\<close>. A listing and a truthy \<open>options.sessionId\<close>: it
  remote-calls \<open>hasReservedSeat(sessionId)\<close> on the room and, with the result of the
  call, returns the listing and that session id when the result is truthy and fails
  with \<open>ERR_MATCHMAKE_EXPIRED\<close> when it is not (an error of the remote call itself
  propagates). A listing, no truthy session id and the listing unlocked: it reserves
  a new seat with \<open>reserveSeatFor\<close>. A listing, no truthy session id and the listing
  locked: it fails with \<open>ERR_MATCHMAKE_INVALID_ROOM_ID\<close>.
\<close>

theorem joinById_cases:
  "((\<forall>l \<in> set (driver w). RoomListingData.roomId l \<noteq> rid) \<longrightarrow>
      joinById rid opts w =
        (Inl (MatchMakeError (''room \"'' @ rid @ ''\" not found'') ERR_MATCHMAKE_INVALID_ROOM_ID), w))
   \<and> (\<forall>room. List.find (\<lambda>l. RoomListingData.roomId l = rid) (driver w) = Some room
          \<and> truthy (get_prop opts ''sessionId'') \<longrightarrow>
        (\<forall>pid v w'. remoteRoomCall (RoomListingData.roomId room) ''hasReservedSeat''
                       (Some [get_prop opts ''sessionId'']) None w = (Inr (pid, v), w') \<longrightarrow>
           joinById rid opts w =
             (if truthy v then (Inr (room, get_prop opts ''sessionId''), w')
              else (Inl (MatchMakeError ''session expired'' ERR_MATCHMAKE_EXPIRED), w')))
        \<and> (\<forall>e w'. remoteRoomCall (RoomListingData.roomId room) ''hasReservedSeat''
                      (Some [get_prop opts ''sessionId'']) None w = (Inl e, w') \<longrightarrow>
              joinById rid opts w = (Inl e, w')))
   \<and> (\<forall>room. List.find (\<lambda>l. RoomListingData.roomId l = rid) (driver w) = Some room
          \<and> \<not> truthy (get_prop opts ''sessionId'') \<and> \<not> locked room \<longrightarrow>
        joinById rid opts w = reserveSeatFor room opts w)
   \<and> (\<forall>room. List.find (\<lambda>l. RoomListingData.roomId l = rid) (driver w) = Some room
          \<and> \<not> truthy (get_prop opts ''sessionId'') \<and> locked room \<longrightarrow>
        joinById rid opts w =
          (Inl (MatchMakeError (''room \"'' @ rid @ ''\" is locked'') ERR_MATCHMAKE_INVALID_ROOM_ID), w))"
proof -
  have absent: "List.find (\<lambda>l. RoomListingData.roomId l = rid) (driver w) = None"
    if "\<forall>l \<in> set (driver w). RoomListingData.roomId l \<noteq> rid"
    using that by (simp add: find_None_iff)
  show ?thesis
    using absent by (auto simp add: joinById_def driver_findOne_roomId Let_def)
qed

theorem joinById_cases_witness:
  "joinById ''r9'' [] example_state
     = (Inl (MatchMakeError ''room \"r9\" not found'' ERR_MATCHMAKE_INVALID_ROOM_ID), example_state)
   \<and> joinById ''r1'' [(''sessionId'', JStr ''s1'')] example_state
       = (Inr (example_listing, JStr ''s1''), example_state)
   \<and> joinById ''r1'' [(''sessionId'', JStr ''s2'')] example_state
       = (Inl (MatchMakeError ''session expired'' ERR_MATCHMAKE_EXPIRED), example_state)
   \<and> joinById ''r1'' [] example_state = reserveSeatFor example_listing [] example_state
   \<and> joinById ''r1'' [] (example_state\<lparr>driver := [example_listing\<lparr>locked := True\<rparr>]\<rparr>)
       = (Inl (MatchMakeError ''room \"r1\" is locked'' ERR_MATCHMAKE_INVALID_ROOM_ID),
          example_state\<lparr>driver := [example_listing\<lparr>locked := True\<rparr>]\<rparr>)"
proof -
  let ?locked = "example_state\<lparr>driver := [example_listing\<lparr>locked := True\<rparr>]\<rparr>"
  have find9: "List.find (\<lambda>l. RoomListingData.roomId l = ''r9'') (driver example_state) = None"
    by (simp add: example_defs)
  have find1: "List.find (\<lambda>l. RoomListingData.roomId l = ''r1'') (driver example_state)
                 = Some example_listing"
    by (simp add: example_defs)
  have findl: "List.find (\<lambda>l. RoomListingData.roomId l = ''r1'') (driver ?locked)
                 = Some (example_listing\<lparr>locked := True\<rparr>)"
    by (simp add: example_defs)
  have s1: "get_prop [(''sessionId'', JStr ''s1'')] ''sessionId'' = JStr ''s1''"
    and s2: "get_prop [(''sessionId'', JStr ''s2'')] ''sessionId'' = JStr ''s2''"
    and s0: "get_prop [] ''sessionId'' = JUndefined"
    by (simp_all add: get_prop_def)
  have rid: "RoomListingData.roomId example_listing = ''r1''"
    and unlocked: "\<not> locked example_listing"
    by (simp_all add: example_defs)
  have held: "localRooms example_state ''r1'' = Some example_room"
    and pid: "processId example_state = JStr ''p1''"
    by (simp_all add: example_state_def)
  have seat1: "room_apply example_room ''hasReservedSeat'' [JStr ''s1'']
                 = (Inr (JBool True), example_room, [])"
    and seat2: "room_apply example_room ''hasReservedSeat'' [JStr ''s2'']
                 = (Inr (JBool False), example_room, [])"
    by (simp_all add: room_apply_def room_member_def example_room_def chat_klass_def)
  have call1: "remoteRoomCall ''r1'' ''hasReservedSeat'' (Some [JStr ''s1'']) None example_state
                 = (Inr (JStr ''p1'', JBool True), example_state)"
    using room_call_no_effect [OF seat1 held] held pid by (simp add: remoteRoomCall_def)
  have call2: "remoteRoomCall ''r1'' ''hasReservedSeat'' (Some [JStr ''s2'']) None example_state
                 = (Inr (JStr ''p1'', JBool False), example_state)"
    using room_call_no_effect [OF seat2 held] held pid by (simp add: remoteRoomCall_def)
  have a: "joinById ''r9'' [] example_state
     = (Inl (MatchMakeError ''room \"r9\" not found'' ERR_MATCHMAKE_INVALID_ROOM_ID), example_state)"
    using joinById_cases [of example_state "''r9''" "[]"] find9 by (simp add: find_None_iff)
  have b: "joinById ''r1'' [(''sessionId'', JStr ''s1'')] example_state
       = (Inr (example_listing, JStr ''s1''), example_state)"
    using joinById_cases [of example_state "''r1''" "[(''sessionId'', JStr ''s1'')]"]
      find1 call1 by (simp add: s1 rid)
  have c: "joinById ''r1'' [(''sessionId'', JStr ''s2'')] example_state
       = (Inl (MatchMakeError ''session expired'' ERR_MATCHMAKE_EXPIRED), example_state)"
    using joinById_cases [of example_state "''r1''" "[(''sessionId'', JStr ''s2'')]"]
      find1 call2 by (simp add: s2 rid)
  have d: "joinById ''r1'' [] example_state = reserveSeatFor example_listing [] example_state"
    using joinById_cases [of example_state "''r1''" "[]"] find1 unlocked by (simp add: s0)
  have e: "joinById ''r1'' [] ?locked
       = (Inl (MatchMakeError ''room \"r1\" is locked'' ERR_MATCHMAKE_INVALID_ROOM_ID), ?locked)"
    using joinById_cases [of ?locked "''r1''" "[]"] findl by (simp add: s0)
  show ?thesis
    using a b c d e by blast
qed

subsection \<open>Seat reservation\<close>

text \<open>
  Claim C3. For every room listing and options, \<open>reserveSeatFor\<close> draws a session id
  from \<open>generateId\<close> (an id that was not drawn before, when the generator never
  repeats), issues the remote call \<open>_reserveSeat(sessionId, options)\<close> on the listing's
  room, raises \<open>SeatReservationError\<close> exactly when the remote call returns a falsy
  result, and otherwise returns the listing it was given together with the session
  id; an error of the remote call itself propagates. \<open>reserveSeatFor\<close> itself changes
  neither the listing nor the registry: drawing the id only advances the generator,
  the listing returned is the one passed in, and the state that \<open>reserveSeatFor\<close> leaves
  is the state that the remote call leaves. What \<open>_reserveSeat\<close> does on the room, such
  as counting the client in the room's listing, locking a full room and saving the
  listing to the registry, is done by the remote call and shows in that state.
\<close>

theorem reserveSeatFor_reserves:
  assumes call: "remoteRoomCall (RoomListingData.roomId room) ''_reserveSeat''
                   (Some [JStr (fst (generateId w)), JObj opts]) None (snd (generateId w)) = (reply, w')"
  shows "(\<forall>pid v. reply = Inr (pid, v) \<and> truthy v \<longrightarrow>
            reserveSeatFor room opts w = (Inr (room, JStr (fst (generateId w))), w'))
       \<and> (\<forall>pid v. reply = Inr (pid, v) \<and> \<not> truthy v \<longrightarrow>
            reserveSeatFor room opts w =
              (Inl (SeatReservationError (RoomListingData.roomId room @ '' is already full.'')), w'))
       \<and> (\<forall>e. reply = Inl e \<longrightarrow> reserveSeatFor room opts w = (Inl e, w'))
       \<and> ((\<exists>msg. fst (reserveSeatFor room opts w) = Inl (SeatReservationError msg)) \<longleftrightarrow>
            (\<exists>pid v. reply = Inr (pid, v) \<and> \<not> truthy v))
       \<and> snd (generateId w) = w\<lparr>generated := Suc (generated w)\<rparr>
       \<and> driver (snd (generateId w)) = driver w
       \<and> snd (reserveSeatFor room opts w) = w'
       \<and> (\<forall>l sid. fst (reserveSeatFor room opts w) = Inr (l, sid) \<longrightarrow>
            l = room \<and> sid = JStr (idgen w (generated w)))
       \<and> (inj (idgen w) \<longrightarrow> fst (generateId w) \<notin> idgen w ` {..< generated w})"
proof -
  have eq: "reserveSeatFor room opts w =
      (case reply of
         Inl e \<Rightarrow> (Inl e, w')
       | Inr (pid, v) \<Rightarrow>
           if \<not> truthy v
           then (Inl (SeatReservationError (RoomListingData.roomId room @ '' is already full.'')), w')
           else (Inr (room, JStr (fst (generateId w))), w'))"
    using call by (simp add: reserveSeatFor_def Let_def case_prod_unfold split: sum.splits)
  have iff: "(\<exists>msg. fst (reserveSeatFor room opts w) = Inl (SeatReservationError msg)) \<longleftrightarrow>
             (\<exists>pid v. reply = Inr (pid, v) \<and> \<not> truthy v)"
  proof (cases reply)
    case (Inl e)
    then have "constructor_of e \<noteq> SeatReservationError_class"
      using call remoteRoomCall_error_class by blast
    then have "e \<noteq> SeatReservationError msg" for msg
      by (cases e) simp_all
    with Inl show ?thesis by (simp add: eq)
  next
    case (Inr r)
    then show ?thesis by (cases r) (simp add: eq)
  qed
  have drawn: "snd (generateId w) = w\<lparr>generated := Suc (generated w)\<rparr>"
      "driver (snd (generateId w)) = driver w"
      "fst (generateId w) = idgen w (generated w)"
    by (simp_all add: generateId_def)
  have fresh: "inj (idgen w) \<longrightarrow> fst (generateId w) \<notin> idgen w ` {..< generated w}"
    by (auto simp add: generateId_def inj_def)
  have snd_eq: "snd (reserveSeatFor room opts w) = w'"
    by (simp add: eq split: sum.splits prod.splits)
  have returned: "\<forall>l sid. fst (reserveSeatFor room opts w) = Inr (l, sid) \<longrightarrow>
            l = room \<and> sid = JStr (idgen w (generated w))"
    by (auto simp add: eq drawn(3) split: sum.splits prod.splits if_splits)
  show ?thesis
    using iff fresh drawn(1,2) snd_eq returned by (simp add: eq)
qed

text \<open>
  Three reservations in a row on the local room \<open>r1\<close>, which admits two clients, and
  one on the room \<open>r2\<close> of another process that answers that no seat is left.
\<close>

theorem reserveSeatFor_reserves_witness:
  "fst (reserveSeatFor example_listing [] example_state) = Inr (example_listing, JStr ''a'')
   \<and> driver (snd (reserveSeatFor example_listing [] example_state))
       = [example_listing\<lparr>clients := 1\<rparr>, remote_listing]
   \<and> fst (reserveSeatFor (example_listing\<lparr>clients := 1\<rparr>) []
            (snd (reserveSeatFor example_listing [] example_state)))
       = Inr (example_listing\<lparr>clients := 1\<rparr>, JStr ''aa'')
   \<and> driver (snd (reserveSeatFor (example_listing\<lparr>clients := 1\<rparr>) []
            (snd (reserveSeatFor example_listing [] example_state))))
       = [example_listing\<lparr>clients := 2, locked := True\<rparr>, remote_listing]
   \<and> members (presence (snd (reserveSeatFor (example_listing\<lparr>clients := 1\<rparr>) []
            (snd (reserveSeatFor example_listing [] example_state))))) ''chat'' = {}
   \<and> fst (reserveSeatFor (example_listing\<lparr>clients := 1\<rparr>) []
            (snd (reserveSeatFor (example_listing\<lparr>clients := 1\<rparr>) []
               (snd (reserveSeatFor example_listing [] example_state)))))
       = Inl (SeatReservationError ''r1 is already full.'')
   \<and> fst (reserveSeatFor remote_listing []
            (example_state\<lparr>network := [Some (SUCCESS, (JStr ''p2'', JBool False))]\<rparr>))
       = Inl (SeatReservationError ''r2 is already full.'')
   \<and> inj (idgen example_state)"
proof -
  let ?w = "example_state\<lparr>network := [Some (SUCCESS, (JStr ''p2'', JBool False))]\<rparr>"
  let ?l1 = "example_listing\<lparr>clients := 1\<rparr>"
  let ?l2 = "example_listing\<lparr>clients := 2, locked := True\<rparr>"
  let ?room1 = "example_room\<lparr>data := (data example_room)\<lparr>listing := ?l1\<rparr>\<rparr>"
  let ?room2 = "example_room\<lparr>data := (data example_room)\<lparr>listing := ?l2\<rparr>\<rparr>"
  let ?t1 = "example_state\<lparr>generated := 1, localRooms := [''r1'' \<mapsto> ?room1],
                           driver := [?l1, remote_listing]\<rparr>"
  let ?h = "example_handler\<lparr>emitted := [(''lock'', ''r1'')]\<rparr>"
  let ?t2 = "example_state\<lparr>generated := 2, localRooms := [''r1'' \<mapsto> ?room2],
                           driver := [?l2, remote_listing],
                           presence := (presence example_state)\<lparr>members := (\<lambda>k. {})\<rparr>,
                           handlers := [''chat'' \<mapsto> ?h]\<rparr>"
  have ids: "RoomListingData.roomId example_listing = ''r1''"
      "RoomListingData.roomId ?l1 = ''r1''"
    by (simp_all add: example_listing_def)
  have saved1: "listing_save ?l1 [example_listing, remote_listing] = [?l1, remote_listing]"
    and saved2: "listing_save ?l2 [?l1, remote_listing] = [?l2, remote_listing]"
    by (simp_all add: listing_save_def example_listing_def remote_listing_def)
  note saved = saved1 [unfolded One_nat_def] saved2 [unfolded One_nat_def]
  have gen0: "generateId example_state = (''a'', example_state\<lparr>generated := 1\<rparr>)"
    and gen1: "generateId ?t1 = (''aa'', ?t1\<lparr>generated := 2\<rparr>)"
    and gen2: "generateId ?t2 = (''aaa'', ?t2\<lparr>generated := 3\<rparr>)"
    by (simp_all add: generateId_def example_state_def eval_nat_numeral)
  have call1: "remoteRoomCall (RoomListingData.roomId example_listing) ''_reserveSeat''
                 (Some [JStr (fst (generateId example_state)), JObj []]) None
                 (snd (generateId example_state)) = (Inr (JStr ''p1'', JBool True), ?t1)"
  proof -
    have held: "localRooms (example_state\<lparr>generated := 1\<rparr>) ''r1'' = Some example_room"
      by (simp add: example_state_def)
    show ?thesis
      unfolding gen0 ids fst_conv snd_conv remoteRoomCall_held [OF held]
        room_call_save [OF chat_reserveSeat_first held]
      by (simp add: saved example_state_def)
  qed
  have call2: "remoteRoomCall (RoomListingData.roomId ?l1) ''_reserveSeat''
                 (Some [JStr (fst (generateId ?t1)), JObj []]) None
                 (snd (generateId ?t1)) = (Inr (JStr ''p1'', JBool True), ?t2)"
  proof -
    let ?s = "?t1\<lparr>generated := 2\<rparr>"
    have held: "localRooms ?s ''r1'' = Some ?room1"
      and handler: "handlers ?s ''chat'' = Some example_handler"
      by (simp_all add: example_state_def)
    have names: "listeners (data ?room2) = listeners (data example_room)"
        "roomName (data ?room2) = ''chat''" "RoomData.roomId (data ?room2) = ''r1''"
      by (simp_all add: example_room_def)
    note lock = example_room_emit_lock [OF names]
    note applied = chat_reserveSeat_second [unfolded One_nat_def]
    have "room_call ''r1'' ?room1 ''_reserveSeat'' [JStr ''aa'', JObj []] ?s
            = (Inr (JBool True), ?t2)"
      by (simp add: room_call_def room_run_def applied lock handler [unfolded One_nat_def])
         (simp add: saved example_state_def example_handler_def fun_eq_iff)
    then show ?thesis
      unfolding gen1 ids fst_conv snd_conv remoteRoomCall_held [OF held]
      by (simp add: example_state_def)
  qed
  have call3: "remoteRoomCall (RoomListingData.roomId ?l1) ''_reserveSeat''
                 (Some [JStr (fst (generateId ?t2)), JObj []]) None
                 (snd (generateId ?t2)) = (Inr (JStr ''p1'', JBool False), ?t2\<lparr>generated := 3\<rparr>)"
  proof -
    let ?s = "?t2\<lparr>generated := 3\<rparr>"
    have held: "localRooms ?s ''r1'' = Some ?room2"
      by simp
    show ?thesis
      unfolding gen2 ids fst_conv snd_conv remoteRoomCall_held [OF held]
        room_call_no_effect [OF chat_reserveSeat_third held]
      by (simp add: example_state_def)
  qed
  have a: "reserveSeatFor example_listing [] example_state
             = (Inr (example_listing, JStr ''a''), ?t1)"
    using reserveSeatFor_reserves [OF call1, THEN conjunct1] by (simp add: gen0)
  have b: "reserveSeatFor ?l1 [] ?t1 = (Inr (?l1, JStr ''aa''), ?t2)"
    using reserveSeatFor_reserves [OF call2, THEN conjunct1]
    by (simp add: gen1 [unfolded One_nat_def])
  have c: "fst (reserveSeatFor ?l1 [] ?t2) = Inl (SeatReservationError ''r1 is already full.'')"
    using reserveSeatFor_reserves [OF call3, THEN conjunct2, THEN conjunct1]
    by (simp add: ids)
  have remote: "remoteRoomCall (RoomListingData.roomId remote_listing) ''_reserveSeat''
                  (Some [JStr (fst (generateId ?w)), JObj []]) None (snd (generateId ?w))
               = (Inr (JStr ''p2'', JBool False),
                  snd (remoteRoomCall (RoomListingData.roomId remote_listing) ''_reserveSeat''
                  (Some [JStr (fst (generateId ?w)), JObj []]) None (snd (generateId ?w))))"
    by (simp add: remoteRoomCall_def remoteRoomCall_send_def generateId_def on_reply_def
          setTimeout_def Let_def example_state_def remote_listing_def example_listing_def)
  have d: "fst (reserveSeatFor remote_listing [] ?w)
       = Inl (SeatReservationError ''r2 is already full.'')"
    using reserveSeatFor_reserves [OF remote, THEN conjunct2, THEN conjunct1]
    by (simp add: remote_listing_def example_listing_def)
  have inj: "inj (idgen example_state)"
    by (simp add: inj_def example_state_def)
  have regs: "driver ?t1 = [?l1, remote_listing]" "driver ?t2 = [?l2, remote_listing]"
      "members (presence ?t2) ''chat'' = {}"
    by simp_all
  show ?thesis
    unfolding a b snd_conv fst_conv using c d inj regs by simp
qed

subsection \<open>Admission gate\<close>

text \<open>
  Claim C4, as the code has it. For every room-type name and callback,
  \<open>awaitRoomAvailable\<close> increments the counter of the type, takes as concurrency the
  incremented counter minus 1, lets a timer of
  \<open>min(concurrency \<times> 100, REMOTE_ROOM_SHORT_TIMEOUT)\<close> milliseconds elapse before it
  runs the callback, settles as the callback does, and decrements the counter
  afterwards whether the callback returned or threw, so that a callback that leaves
  the counter alone leaves it at its prior value, as the query of \<open>queryRoom\<close> does.
  The cap \<open>REMOTE_ROOM_SHORT_TIMEOUT\<close> is 2000 when the environment variable
  \<open>COLYSEUS_PRESENCE_SHORT_TIMEOUT\<close> is unset or empty, and the number read from it
  otherwise.
\<close>

theorem awaitRoomAvailable_admission_gate:
  fixes callback :: "MatchMaker \<Rightarrow> (error + 'a) \<times> MatchMaker"
  assumes key: "concurrencyKey = getHandlerConcurrencyKey roomToJoin"
    and conc: "concurrency = (counter (presence w) concurrencyKey + 1) - 1"
    and delay: "concurrencyTimeout = Math_min (Num (concurrency * 100)) (REMOTE_ROOM_SHORT_TIMEOUT w)"
    and w1: "w1 = w\<lparr>presence := (presence w)\<lparr>keys := (keys (presence w))
                       (concurrencyKey \<mapsto> counter (presence w) concurrencyKey + 1)\<rparr>,
                    elapsed := elapsed w @ [concurrencyTimeout]\<rparr>"
    and run: "callback w1 = (result, w2)"
  shows "fst (awaitRoomAvailable roomToJoin callback w) = result
       \<and> snd (awaitRoomAvailable roomToJoin callback w) =
           w2\<lparr>presence := (presence w2)\<lparr>keys := (keys (presence w2))
                  (concurrencyKey \<mapsto> counter (presence w2) concurrencyKey - 1)\<rparr>\<rparr>
       \<and> (counter (presence w2) concurrencyKey = counter (presence w1) concurrencyKey \<longrightarrow>
            counter (presence (snd (awaitRoomAvailable roomToJoin callback w))) concurrencyKey =
              counter (presence w) concurrencyKey)
       \<and> (COLYSEUS_PRESENCE_SHORT_TIMEOUT w = None \<longrightarrow>
            concurrencyTimeout = Num (min (concurrency * 100) 2000))
       \<and> (\<forall>t. COLYSEUS_PRESENCE_SHORT_TIMEOUT w = Some (Num t) \<longrightarrow>
            concurrencyTimeout = Num (min (concurrency * 100) t))
       \<and> (\<forall>opts. counter (presence (snd (queryRoom roomToJoin opts w))) concurrencyKey =
                   counter (presence w) concurrencyKey
                \<and> elapsed (snd (queryRoom roomToJoin opts w)) = elapsed w @ [concurrencyTimeout])"
proof -
  have gate: "fst (awaitRoomAvailable roomToJoin callback w) = result
       \<and> snd (awaitRoomAvailable roomToJoin callback w) =
           w2\<lparr>presence := (presence w2)\<lparr>keys := (keys (presence w2))
                  (concurrencyKey \<mapsto> counter (presence w2) concurrencyKey - 1)\<rparr>\<rparr>"
    using key conc delay w1 run
    by (simp add: awaitRoomAvailable_def Let_def presence_incr_def presence_decr_def counter_def)
  have restored: "counter (presence w2) concurrencyKey = counter (presence w1) concurrencyKey \<longrightarrow>
            counter (presence (snd (awaitRoomAvailable roomToJoin callback w))) concurrencyKey =
              counter (presence w) concurrencyKey"
    using gate w1 by (simp add: counter_def)
  have cap: "COLYSEUS_PRESENCE_SHORT_TIMEOUT w = None \<longrightarrow>
            concurrencyTimeout = Num (min (concurrency * 100) 2000)"
      "\<forall>t. COLYSEUS_PRESENCE_SHORT_TIMEOUT w = Some (Num t) \<longrightarrow>
            concurrencyTimeout = Num (min (concurrency * 100) t)"
    using delay by (simp_all add: REMOTE_ROOM_SHORT_TIMEOUT_def)
  have of_query: "counter (presence (snd (queryRoom roomToJoin opts w))) concurrencyKey =
                   counter (presence w) concurrencyKey
                \<and> elapsed (snd (queryRoom roomToJoin opts w)) = elapsed w @ [concurrencyTimeout]" for opts
    using key conc delay
    by (simp add: queryRoom_def awaitRoomAvailable_def Let_def presence_incr_def presence_decr_def
          counter_def split: option.splits)
  show ?thesis
    using gate restored cap of_query by blast
qed

theorem awaitRoomAvailable_admission_gate_witness:
  "fst (awaitRoomAvailable ''chat'' failing_callback example_state) = Inl (Error ''failed'')
   \<and> counter (presence (snd (awaitRoomAvailable ''chat'' failing_callback example_state))) ''chat:c''
       = counter (presence example_state) ''chat:c''
   \<and> elapsed (snd (awaitRoomAvailable ''chat'' failing_callback example_state)) = [Num 0]
   \<and> elapsed (snd (awaitRoomAvailable ''chat'' idle_callback busy_state)) = [Num 500]"
proof -
  let ?w1 = "example_state\<lparr>presence := (presence example_state)\<lparr>keys := (keys (presence example_state))
                 (''chat:c'' \<mapsto> counter (presence example_state) ''chat:c'' + 1)\<rparr>,
               elapsed := elapsed example_state @ [Num 0]\<rparr>"
  let ?b1 = "busy_state\<lparr>presence := (presence busy_state)\<lparr>keys := (keys (presence busy_state))
                 (''chat:c'' \<mapsto> counter (presence busy_state) ''chat:c'' + 1)\<rparr>,
               elapsed := elapsed busy_state @ [Num 500]\<rparr>"
  have k: "''chat:c'' = getHandlerConcurrencyKey ''chat''"
    by (simp add: getHandlerConcurrencyKey_def)
  have c0: "(0::int) = (counter (presence example_state) ''chat:c'' + 1) - 1"
    by (simp add: counter_def example_defs)
  have d0: "Num 0 = Math_min (Num (0 * 100)) (REMOTE_ROOM_SHORT_TIMEOUT example_state)"
    by (simp add: REMOTE_ROOM_SHORT_TIMEOUT_def example_defs)
  have c10: "(10::int) = (counter (presence busy_state) ''chat:c'' + 1) - 1"
    by (simp add: counter_def example_defs)
  have d10: "Num 500 = Math_min (Num (10 * 100)) (REMOTE_ROOM_SHORT_TIMEOUT busy_state)"
    by (simp add: REMOTE_ROOM_SHORT_TIMEOUT_def example_defs)
  have r0: "failing_callback ?w1 = (Inl (Error ''failed''), ?w1)"
    by (simp add: failing_callback_def)
  have r10: "idle_callback ?b1 = (Inr (), ?b1)"
    by (simp add: idle_callback_def)
  show ?thesis
    using awaitRoomAvailable_admission_gate
        [where callback = failing_callback and w = example_state, OF k c0 d0 refl r0]
      awaitRoomAvailable_admission_gate
        [where callback = idle_callback and w = busy_state, OF k c10 d10 refl r10]
    by (simp add: counter_def example_defs)
qed

text \<open>
  The claim as stated caps the wait at 2000 ms. With the environment variable set to
  500 and ten admissions in flight the gate waits 500 ms, not \<open>min(10 \<times> 100, 2000)\<close>.
\<close>

theorem awaitRoomAvailable_cap_counterexample:
  "elapsed (snd (queryRoom ''chat'' [] busy_state)) = [Num 500]
   \<and> counter (presence busy_state) (getHandlerConcurrencyKey ''chat'') + 1 - 1 = 10
   \<and> Num 500 \<noteq> Num (min (10 * 100) 2000)"
  by (simp add: matchmaker_defs collaborator_defs example_defs Let_def)

subsection \<open>Remote call of a local room\<close>



subsection \<open>Remote call of a room of another process\<close>

text \<open>
  Claim C6. For every \<open>remoteRoomCall\<close> to a room that is not local: the call
  resolves with the payload of a first \<open>SUCCESS\<close> reply, rejects with the payload of a
  first \<open>ERROR\<close> reply, and when no reply arrives rejects, once the timer of
  \<open>rejectionTimeout\<close> has elapsed, with an \<open>Error\<close> whose message names the room, the
  request and the timeout. \<open>rejectionTimeout\<close> defaults to 2000, or to the number in
  the environment variable \<open>COLYSEUS_PRESENCE_SHORT_TIMEOUT\<close>. In each of the three
  outcomes no subscription of the reply channel is left and the other subscriptions
  are untouched; the reply channel is named by a fresh request id, and when it had
  no subscription before the call, the subscriptions, and with them their count, are
  what they were before the call. The same holds of the pending timers.
\<close>

theorem remoteRoomCall_remote:
  assumes notlocal: "localRooms w rid = None"
    and rt: "rejectionTimeout = (case timeout of None \<Rightarrow> REMOTE_ROOM_SHORT_TIMEOUT w | Some t \<Rightarrow> t)"
    and ch: "channel = rid @ '':'' @ idgen w (generated w)"
    and res: "after = snd (remoteRoomCall rid method args timeout w)"
  shows "subscriptions (presence after) =
           filter (\<lambda>(c, h). c \<noteq> channel) (subscriptions (presence w))
       \<and> (channel \<notin> fst ` set (subscriptions (presence w)) \<longrightarrow>
             subscriptions (presence after) = subscriptions (presence w)
             \<and> length (subscriptions (presence after)) = length (subscriptions (presence w)))
       \<and> timers after = filter (\<lambda>(h, d). h \<noteq> channel) (timers w)
       \<and> (channel \<notin> fst ` set (timers w) \<longrightarrow> timers after = timers w)
       \<and> (\<forall>payload rest. network w = Some (SUCCESS, payload) # rest \<longrightarrow>
             fst (remoteRoomCall rid method args timeout w) = Inr payload
             \<and> elapsed after = elapsed w)
       \<and> (\<forall>payload rest. network w = Some (ERROR, payload) # rest \<longrightarrow>
             fst (remoteRoomCall rid method args timeout w) = Inl (RemoteRejection payload)
             \<and> elapsed after = elapsed w)
       \<and> (network w = [] \<or> (\<exists>rest. network w = None # rest) \<longrightarrow>
             fst (remoteRoomCall rid method args timeout w) =
               Inl (Error (''remote room ('' @ rid @ '') timed out, requesting \"'' @ method @
                      (case args of None \<Rightarrow> [] | Some a \<Rightarrow> '' with args '' @ JSON_stringify w a) @
                      ''\". Timeout setting: '' @ string_of_jsnum rejectionTimeout @ ''ms''))
             \<and> (channel \<notin> fst ` set (timers w) \<longrightarrow>
                   elapsed after = elapsed w @ [rejectionTimeout]))
       \<and> (timeout = None \<and> COLYSEUS_PRESENCE_SHORT_TIMEOUT w = None \<longrightarrow> rejectionTimeout = Num 2000)
       \<and> (\<forall>n. timeout = None \<and> COLYSEUS_PRESENCE_SHORT_TIMEOUT w = Some n \<longrightarrow> rejectionTimeout = n)"
proof -
  define sent where "sent = snd (remoteRoomCall_send rid method args rejectionTimeout w)"
  have send: "remoteRoomCall_send rid method args rejectionTimeout w = (channel, sent)"
    by (simp add: sent_def ch remoteRoomCall_send_def generateId_def Let_def)
  have sent: "subscriptions (presence sent) = subscriptions (presence w) @ [(channel, ReplyHandler)]"
      "timers sent = timers w @ [(channel, rejectionTimeout)]"
      "network sent = network w" "elapsed sent = elapsed w" "JSON_stringify sent = JSON_stringify w"
    by (simp_all add: sent_def ch remoteRoomCall_send_def generateId_def Let_def setTimeout_def
          presence_subscribe_def presence_publish_def)
  have unsub: "subscriptions (presence (unsubscribe channel s)) =
                 filter (\<lambda>(c, h). c \<noteq> channel) (subscriptions (presence s))"
      "timers (unsubscribe channel s) = filter (\<lambda>(h, d). h \<noteq> channel) (timers s)"
      "elapsed (unsubscribe channel s) = elapsed s" for s
    by (simp_all add: unsubscribe_def clearTimeout_def presence_unsubscribe_def)
  have twice: "filter (\<lambda>(h, d). h \<noteq> channel) (filter (\<lambda>(h, d). h \<noteq> channel) xs)
                 = filter (\<lambda>(h, d). h \<noteq> channel) xs" for xs :: "(string \<times> jsnum) list"
    by (induction xs) auto
  have fired: "subscriptions (presence (timer_fires channel s)) = subscriptions (presence s)"
      "filter (\<lambda>(h, d). h \<noteq> channel) (timers (timer_fires channel s)) =
         filter (\<lambda>(h, d). h \<noteq> channel) (timers s)"
      "JSON_stringify (timer_fires channel s) = JSON_stringify s" for s
    by (simp_all add: timer_fires_def twice split: option.splits)
  have fired_fresh: "elapsed (timer_fires channel s) = elapsed w @ [rejectionTimeout]"
    if "channel \<notin> fst ` set (timers w)" "timers s = timers sent" "elapsed s = elapsed sent" for s
  proof -
    have "map_of (timers w) channel = None"
      using that(1) by (simp add: map_of_eq_None_iff)
    then show ?thesis
      using that(2,3) by (simp add: timer_fires_def sent map_add_def)
  qed
  have call: "remoteRoomCall rid method args timeout w =
      (case network sent of
         Some message # rest \<Rightarrow> on_reply channel message (sent\<lparr>network := rest\<rparr>)
       | None # rest \<Rightarrow>
           on_timeout rid method args rejectionTimeout channel
             (timer_fires channel (sent\<lparr>network := rest\<rparr>))
       | [] \<Rightarrow> on_timeout rid method args rejectionTimeout channel (timer_fires channel sent))"
    using notlocal by (simp add: remoteRoomCall_def Let_def rt [symmetric] send)
  have reply_state: "snd (on_reply channel message s) = unsubscribe channel s" for message s
    by (cases message, cases "fst message") (simp_all add: on_reply_def)
  have timeout_state: "snd (on_timeout rid method args rejectionTimeout channel s) = unsubscribe channel s"
      "fst (on_timeout rid method args rejectionTimeout channel s) =
         Inl (Error (''remote room ('' @ rid @ '') timed out, requesting \"'' @ method @
                      (case args of None \<Rightarrow> [] | Some a \<Rightarrow> '' with args '' @ JSON_stringify s a) @
                      ''\". Timeout setting: '' @ string_of_jsnum rejectionTimeout @ ''ms''))" for s
    by (simp_all add: on_timeout_def)
  have subs: "subscriptions (presence after) =
           filter (\<lambda>(c, h). c \<noteq> channel) (subscriptions (presence w))"
   and tims: "timers after = filter (\<lambda>(h, d). h \<noteq> channel) (timers w)"
  proof -
    have "subscriptions (presence after) =
                 filter (\<lambda>(c, h). c \<noteq> channel) (subscriptions (presence w))
             \<and> timers after = filter (\<lambda>(h, d). h \<noteq> channel) (timers w)"
    proof (cases "network w")
      case Nil
      then have "after = unsubscribe channel (timer_fires channel sent)"
        using res call by (simp add: sent timeout_state)
      then show ?thesis
        using fired(2) [of sent] by (simp add: unsub fired(1) sent)
    next
      case (Cons m rest)
      show ?thesis
      proof (cases m)
        case None
        then have "after = unsubscribe channel (timer_fires channel (sent\<lparr>network := rest\<rparr>))"
          using res call Cons by (simp add: sent timeout_state)
        then show ?thesis
          using fired(2) [of "sent\<lparr>network := rest\<rparr>"] by (simp add: unsub fired(1) sent)
      next
        case (Some message)
        then have "after = unsubscribe channel (sent\<lparr>network := rest\<rparr>)"
          using res call Cons by (simp add: sent reply_state)
        then show ?thesis
          by (simp add: unsub sent)
      qed
    qed
    then show "subscriptions (presence after) =
           filter (\<lambda>(c, h). c \<noteq> channel) (subscriptions (presence w))"
      and "timers after = filter (\<lambda>(h, d). h \<noteq> channel) (timers w)"
      by simp_all
  qed
  have fresh_subs: "channel \<notin> fst ` set (subscriptions (presence w)) \<longrightarrow>
             subscriptions (presence after) = subscriptions (presence w)
             \<and> length (subscriptions (presence after)) = length (subscriptions (presence w))"
    by (simp add: subs filter_fresh)
  have fresh_tims: "channel \<notin> fst ` set (timers w) \<longrightarrow> timers after = timers w"
    by (simp add: tims filter_fresh)
  have replied: "\<forall>payload rest. network w = Some (SUCCESS, payload) # rest \<longrightarrow>
             fst (remoteRoomCall rid method args timeout w) = Inr payload
             \<and> elapsed after = elapsed w"
      "\<forall>payload rest. network w = Some (ERROR, payload) # rest \<longrightarrow>
             fst (remoteRoomCall rid method args timeout w) = Inl (RemoteRejection payload)
             \<and> elapsed after = elapsed w"
    using res by (simp_all add: call sent on_reply_def unsub)
  have timed_out: "network w = [] \<or> (\<exists>rest. network w = None # rest) \<longrightarrow>
             fst (remoteRoomCall rid method args timeout w) =
               Inl (Error (''remote room ('' @ rid @ '') timed out, requesting \"'' @ method @
                      (case args of None \<Rightarrow> [] | Some a \<Rightarrow> '' with args '' @ JSON_stringify w a) @
                      ''\". Timeout setting: '' @ string_of_jsnum rejectionTimeout @ ''ms''))
             \<and> (channel \<notin> fst ` set (timers w) \<longrightarrow>
                   elapsed after = elapsed w @ [rejectionTimeout])"
  proof (intro impI, elim disjE exE)
    assume none: "network w = []"
    then have st: "after = unsubscribe channel (timer_fires channel sent)"
      using res call by (simp add: sent timeout_state)
    show "fst (remoteRoomCall rid method args timeout w) =
               Inl (Error (''remote room ('' @ rid @ '') timed out, requesting \"'' @ method @
                      (case args of None \<Rightarrow> [] | Some a \<Rightarrow> '' with args '' @ JSON_stringify w a) @
                      ''\". Timeout setting: '' @ string_of_jsnum rejectionTimeout @ ''ms''))
             \<and> (channel \<notin> fst ` set (timers w) \<longrightarrow>
                   elapsed after = elapsed w @ [rejectionTimeout])"
      using none fired_fresh [of sent]
      by (simp add: call sent timeout_state fired(3) st unsub split: option.splits)
  next
    fix rest
    assume none: "network w = None # rest"
    then have st: "after = unsubscribe channel (timer_fires channel (sent\<lparr>network := rest\<rparr>))"
      using res call by (simp add: sent timeout_state)
    show "fst (remoteRoomCall rid method args timeout w) =
               Inl (Error (''remote room ('' @ rid @ '') timed out, requesting \"'' @ method @
                      (case args of None \<Rightarrow> [] | Some a \<Rightarrow> '' with args '' @ JSON_stringify w a) @
                      ''\". Timeout setting: '' @ string_of_jsnum rejectionTimeout @ ''ms''))
             \<and> (channel \<notin> fst ` set (timers w) \<longrightarrow>
                   elapsed after = elapsed w @ [rejectionTimeout])"
      using none fired_fresh [of "sent\<lparr>network := rest\<rparr>"]
      by (simp add: call sent timeout_state fired(3) st unsub split: option.splits)
  qed
  have dflt: "timeout = None \<and> COLYSEUS_PRESENCE_SHORT_TIMEOUT w = None \<longrightarrow> rejectionTimeout = Num 2000"
      "\<forall>n. timeout = None \<and> COLYSEUS_PRESENCE_SHORT_TIMEOUT w = Some n \<longrightarrow> rejectionTimeout = n"
    using rt by (simp_all add: REMOTE_ROOM_SHORT_TIMEOUT_def)
  show ?thesis
    using subs fresh_subs tims fresh_tims replied timed_out dflt by blast
qed

theorem remoteRoomCall_remote_witness:
  "subscriptions (presence (snd (remoteRoomCall ''r2'' ''roomId'' None None example_state)))
     = [(''$r1'', RoomChannelHandler)]
   \<and> subscriptions (presence example_state) = [(''$r1'', RoomChannelHandler)]
   \<and> elapsed (snd (remoteRoomCall ''r2'' ''roomId'' None None example_state)) = [Num 2000]
   \<and> fst (remoteRoomCall ''r2'' ''roomId'' None None example_state)
       = Inl (Error ''remote room (r2) timed out, requesting \"roomId\". Timeout setting: 2000ms'')
   \<and> fst (remoteRoomCall ''r2'' ''roomId'' None None
            (example_state\<lparr>network := [Some (SUCCESS, (JStr ''p2'', JStr ''r2''))]\<rparr>))
       = Inr (JStr ''p2'', JStr ''r2'')
   \<and> fst (remoteRoomCall ''r2'' ''roomId'' None None
            (example_state\<lparr>network := [Some (ERROR, (JStr ''p2'', JStr ''no''))]\<rparr>))
       = Inl (RemoteRejection (JStr ''p2'', JStr ''no''))
   \<and> subscriptions (presence (snd (remoteRoomCall ''r2'' ''roomId'' None None
        (example_state\<lparr>network := [Some (ERROR, (JStr ''p2'', JStr ''no''))]\<rparr>))))
       = [(''$r1'', RoomChannelHandler)]"
proof -
  let ?s = "example_state\<lparr>network := [Some (SUCCESS, (JStr ''p2'', JStr ''r2''))]\<rparr>"
  let ?e = "example_state\<lparr>network := [Some (ERROR, (JStr ''p2'', JStr ''no''))]\<rparr>"
  have digits: "digits_of 2000 = ''2000''"
    by code_simp
  have t: "Num 2000 = (case None of None \<Rightarrow> REMOTE_ROOM_SHORT_TIMEOUT example_state | Some t \<Rightarrow> t)"
      "Num 2000 = (case None of None \<Rightarrow> REMOTE_ROOM_SHORT_TIMEOUT ?s | Some t \<Rightarrow> t)"
      "Num 2000 = (case None of None \<Rightarrow> REMOTE_ROOM_SHORT_TIMEOUT ?e | Some t \<Rightarrow> t)"
    by (simp_all add: REMOTE_ROOM_SHORT_TIMEOUT_def example_defs)
  have c: "''r2:a'' = ''r2'' @ '':'' @ idgen example_state (generated example_state)"
      "''r2:a'' = ''r2'' @ '':'' @ idgen ?s (generated ?s)"
      "''r2:a'' = ''r2'' @ '':'' @ idgen ?e (generated ?e)"
    by (simp_all add: example_defs)
  have n: "localRooms example_state ''r2'' = None" "localRooms ?s ''r2'' = None"
      "localRooms ?e ''r2'' = None"
    by (simp_all add: example_defs)
  have before: "subscriptions (presence example_state) = [(''$r1'', RoomChannelHandler)]"
      "subscriptions (presence ?e) = [(''$r1'', RoomChannelHandler)]"
      "timers example_state = []" "elapsed example_state = []"
      "network example_state = []" "network ?s = [Some (SUCCESS, (JStr ''p2'', JStr ''r2''))]"
      "network ?e = [Some (ERROR, (JStr ''p2'', JStr ''no''))]"
      "JSON_stringify example_state = (\<lambda>a. ''[...]'')"
    by (simp_all add: example_defs)
  show ?thesis
    using remoteRoomCall_remote [OF n(1) t(1) c(1) refl, of "''roomId''" None]
      remoteRoomCall_remote [OF n(2) t(2) c(2) refl, of "''roomId''" None]
      remoteRoomCall_remote [OF n(3) t(3) c(3) refl, of "''roomId''" None]
    by (simp add: digits before)
qed

subsection \<open>Query\<close>

text \<open>
  Claim C7. For every optional room name and conditions, \<open>query\<close> calls \<open>driver.find\<close>
  with conditions in which \<open>private\<close> is \<open>false\<close> and in which \<open>name\<close> is the room name
  when one is given (a non-empty text; otherwise \<open>name\<close> is as the caller had it). It
  adds no condition on \<open>locked\<close>: the conditions constrain \<open>locked\<close> only if the caller's
  did, and when they do not, whether a listing matches does not depend on its lock,
  so locked public rooms are in the result. With the default conditions the result
  is the public rooms (of that name), locked or not.
\<close>

theorem query_forces_public:
  assumes ref: "c < length (objects w)"
    and before: "conditions = objects w ! c"
    and after: "conditions' = objects (snd (query rname (Some c) w)) ! c"
  shows "fst (query rname (Some c) w) = driver_find conditions' (driver w)
       \<and> get_prop conditions' ''private'' = JBool False
       \<and> (\<forall>n. rname = Some n \<and> n \<noteq> [] \<longrightarrow> get_prop conditions' ''name'' = JStr n)
       \<and> (rname = None \<or> rname = Some [] \<longrightarrow>
            get_prop conditions' ''name'' = get_prop conditions ''name''
            \<and> (''name'' \<in> fst ` set conditions' \<longleftrightarrow> ''name'' \<in> fst ` set conditions))
       \<and> (''locked'' \<in> fst ` set conditions' \<longleftrightarrow> ''locked'' \<in> fst ` set conditions)
       \<and> get_prop conditions' ''locked'' = get_prop conditions ''locked''
       \<and> (\<forall>l \<in> set (driver w). matches conditions' l \<longrightarrow> l \<in> set (fst (query rname (Some c) w)))
       \<and> (''locked'' \<notin> fst ` set conditions \<longrightarrow>
            (\<forall>l b. matches conditions' (l\<lparr>locked := b\<rparr>) = matches conditions' l))
       \<and> (\<forall>n. n \<noteq> [] \<longrightarrow>
            fst (query (Some n) None w) = filter (\<lambda>l. name l = n \<and> \<not> private l) (driver w))
       \<and> fst (query None None w) = filter (\<lambda>l. \<not> private l) (driver w)"
proof -
  have c': "conditions' = set_prop
              (case rname of
                 None \<Rightarrow> conditions
               | Some n \<Rightarrow> if n \<noteq> [] then set_prop conditions ''name'' (JStr n) else conditions)
              ''private'' (JBool False)"
    unfolding before after query_result(1) [OF ref] using ref by simp
  have res: "fst (query rname (Some c) w) = driver_find conditions' (driver w)"
    using ref after by (simp add: query_result(2))
  have keys: "''locked'' \<in> fst ` set conditions' \<longleftrightarrow> ''locked'' \<in> fst ` set conditions"
    by (auto simp add: c' keys_set_prop split: option.splits)
  have nm: "rname = None \<or> rname = Some [] \<longrightarrow>
            get_prop conditions' ''name'' = get_prop conditions ''name''
            \<and> (''name'' \<in> fst ` set conditions' \<longleftrightarrow> ''name'' \<in> fst ` set conditions)"
    by (auto simp add: c' keys_set_prop get_prop_set_prop)
  have irrelevant: "''locked'' \<notin> fst ` set conditions \<longrightarrow>
            (\<forall>l b. matches conditions' (l\<lparr>locked := b\<rparr>) = matches conditions' l)"
    using keys by (simp add: matches_locked_irrelevant)
  have dflt: "\<forall>n. n \<noteq> [] \<longrightarrow>
            fst (query (Some n) None w) = filter (\<lambda>l. name l = n \<and> \<not> private l) (driver w)"
    by (auto simp add: query_def assign_field_def Let_def driver_find_def matches_def field_of_def
          get_prop_def intro!: filter_cong)
  have dflt_none: "fst (query None None w) = filter (\<lambda>l. \<not> private l) (driver w)"
    by (auto simp add: query_def assign_field_def Let_def driver_find_def matches_def field_of_def
          get_prop_def intro!: filter_cong)
  have priv: "get_prop conditions' ''private'' = JBool False"
    by (simp add: c' get_prop_set_prop)
  have given: "\<forall>n. rname = Some n \<and> n \<noteq> [] \<longrightarrow> get_prop conditions' ''name'' = JStr n"
    by (simp add: c' get_prop_set_prop)
  have lk: "get_prop conditions' ''locked'' = get_prop conditions ''locked''"
    by (simp add: c' get_prop_set_prop split: option.splits)
  have incl: "\<forall>l \<in> set (driver w). matches conditions' l \<longrightarrow> l \<in> set (fst (query rname (Some c) w))"
    by (simp add: res driver_find_def)
  show ?thesis
    using res priv given nm keys lk incl irrelevant dflt dflt_none by blast
qed

theorem query_forces_public_witness:
  "fst (query (Some ''chat'') (Some 0) query_state) = [example_listing\<lparr>locked := True\<rparr>]
   \<and> fst (query (Some ''chat'') None query_state) = [example_listing\<lparr>locked := True\<rparr>]
   \<and> get_prop (objects (snd (query (Some ''chat'') (Some 0) query_state)) ! 0) ''private'' = JBool False
   \<and> get_prop (objects (snd (query (Some ''chat'') (Some 0) query_state)) ! 0) ''locked'' = JUndefined"
proof -
  have ref: "0 < length (objects query_state)"
    by (simp add: example_defs)
  have before: "objects query_state ! 0 = []"
    by (simp add: example_defs)
  have drv: "driver query_state = [example_listing\<lparr>locked := True\<rparr>, remote_listing\<lparr>private := True\<rparr>]"
    by (simp add: example_defs)
  have after: "objects (snd (query (Some ''chat'') (Some 0) query_state)) ! 0
                 = [(''name'', JStr ''chat''), (''private'', JBool False)]"
    using query_result(1) [OF ref, of "Some ''chat''"] ref by (simp add: before)
  have found: "driver_find [(''name'', JStr ''chat''), (''private'', JBool False)] (driver query_state)
                 = [example_listing\<lparr>locked := True\<rparr>]"
    unfolding drv by (simp add: driver_find_def matches_def field_of_def get_prop_def example_defs)
  have pub: "filter (\<lambda>l. name l = ''chat'' \<and> \<not> private l) (driver query_state)
                 = [example_listing\<lparr>locked := True\<rparr>]"
    unfolding drv by (simp add: example_defs)
  have inst: "fst (query (Some ''chat'') (Some 0) query_state)
               = driver_find (objects (snd (query (Some ''chat'') (Some 0) query_state)) ! 0)
                   (driver query_state)
       \<and> get_prop (objects (snd (query (Some ''chat'') (Some 0) query_state)) ! 0) ''private''
           = JBool False
       \<and> get_prop (objects (snd (query (Some ''chat'') (Some 0) query_state)) ! 0) ''locked''
           = get_prop (objects query_state ! 0) ''locked''
       \<and> fst (query (Some ''chat'') None query_state)
           = filter (\<lambda>l. name l = ''chat'' \<and> \<not> private l) (driver query_state)"
    using query_forces_public [OF ref refl refl, of "Some ''chat''"] by blast
  show ?thesis
    using inst by (simp add: after found pub before get_prop_def)
qed

subsection \<open>Lock and unlock\<close>

text \<open>
  Claim C8, as the code has it. For every room, the callback of the \<open>lock\<close> event
  (\<open>lockRoom\<close>) removes the room's id from the presence set named by its room type,
  deletes the presence key named by the room id, and emits \<open>lock\<close> on the handler of
  the room type when there is one; it changes nothing else. In particular no other
  member of any set is removed, and the registry, with the room's listing, and
  \<open>localRooms\<close>, with the local handle, are left unchanged, as are the subscriptions.
  The result of a matchmaking query (\<open>queryRoom\<close>, \<open>query\<close>) is the same after
  \<open>lockRoom\<close> as before: a query reads the registry and the handlers, not the
  presence set. \<open>lockRoom\<close> throws only when the room type has no handler. The
  callback of the subsequent \<open>unlock\<close> event (\<open>unlockRoom\<close>) puts the room id back into
  the set and the room into \<open>localRooms\<close>, leaves the registry alone and does not bring
  the deleted key back: for a room that was registered when it locked, the sets and
  \<open>localRooms\<close> are again what they were.
\<close>

theorem lockRoom_unlockRoom_references:
  assumes locked: "w1 = snd (lockRoom rname room w)"
    and unlocked: "w2 = snd (unlockRoom rname room w1)"
    and rid: "rid = RoomData.roomId (data room)"
    and type: "rtype = roomName (data room)"
  shows "w1 = (case handlers w rtype of
                 None \<Rightarrow>
                   w\<lparr>presence := (presence w)
                       \<lparr>members := (members (presence w))
                           (rtype := members (presence w) rtype - {rid}),
                        keys := (keys (presence w))(rid := None)\<rparr>\<rparr>
               | Some handler \<Rightarrow>
                   w\<lparr>presence := (presence w)
                       \<lparr>members := (members (presence w))
                           (rtype := members (presence w) rtype - {rid}),
                        keys := (keys (presence w))(rid := None)\<rparr>,
                     handlers := (handlers w)
                       (rtype \<mapsto> handler\<lparr>emitted := emitted handler @ [(''lock'', rid)]\<rparr>)\<rparr>)
       \<and> fst (lockRoom rname room w) =
             (case handlers w rtype of
                None \<Rightarrow> Inl (TypeError ''Cannot read property 'emit' of undefined'')
              | Some handler \<Rightarrow> Inr ())
       \<and> members (presence w1) rtype = members (presence w) rtype - {rid}
       \<and> (\<forall>k. k \<noteq> rtype \<longrightarrow> members (presence w1) k = members (presence w) k)
       \<and> keys (presence w1) = (keys (presence w))(rid := None)
       \<and> subscriptions (presence w1) = subscriptions (presence w)
       \<and> published (presence w1) = published (presence w)
       \<and> driver w1 = driver w
       \<and> localRooms w1 = localRooms w
       \<and> (\<forall>n opts. fst (queryRoom n opts w1) = fst (queryRoom n opts w))
       \<and> (\<forall>n c. fst (query n c w1) = fst (query n c w))
       \<and> members (presence w2) rtype = insert rid (members (presence w) rtype)
       \<and> (\<forall>k. k \<noteq> rtype \<longrightarrow> members (presence w2) k = members (presence w) k)
       \<and> localRooms w2 = (localRooms w)(rid \<mapsto> room)
       \<and> driver w2 = driver w
       \<and> subscriptions (presence w2) = subscriptions (presence w)
       \<and> keys (presence w2) = (keys (presence w))(rid := None)
       \<and> (localRooms w rid = Some room \<and> rid \<in> members (presence w) rtype \<longrightarrow>
            members (presence w2) = members (presence w) \<and> localRooms w2 = localRooms w)"
proof -
  let ?p = "(presence w)\<lparr>members := (members (presence w))
                            (rtype := members (presence w) rtype - {rid}),
                         keys := (keys (presence w))(rid := None)\<rparr>"
  have exact: "w1 = (case handlers w rtype of
                 None \<Rightarrow> w\<lparr>presence := ?p\<rparr>
               | Some handler \<Rightarrow>
                   w\<lparr>presence := ?p,
                     handlers := (handlers w)
                       (rtype \<mapsto> handler\<lparr>emitted := emitted handler @ [(''lock'', rid)]\<rparr>)\<rparr>)"
    using locked rid type
    by (simp add: lockRoom_def clearRoomReferences_def handler_emit_def presence_srem_def
          presence_del_def Let_def split: option.splits)
  have thrown: "fst (lockRoom rname room w) =
             (case handlers w rtype of
                None \<Rightarrow> Inl (TypeError ''Cannot read property 'emit' of undefined'')
              | Some handler \<Rightarrow> Inr ())"
    using type by (simp add: lockRoom_def handler_emit_def clearRoomReferences_def
          split: option.splits)
  have lock: "presence w1 = ?p" "driver w1 = driver w" "localRooms w1 = localRooms w"
      "objects w1 = objects w"
    by (simp_all add: exact split: option.splits)
  have handler: "handlers w1 n = None \<longleftrightarrow> handlers w n = None"
      "\<And>h1 h. handlers w1 n = Some h1 \<Longrightarrow> handlers w n = Some h \<Longrightarrow>
         getFilterOptions h1 = getFilterOptions h \<and> sortOptions h1 = sortOptions h" for n
    by (auto simp add: exact split: option.splits if_splits)
  have same_room: "fst (queryRoom n opts w1) = fst (queryRoom n opts w)" for n opts
  proof (cases "handlers w n")
    case None
    then show ?thesis
      using handler(1) [of n] by (simp add: queryRoom_result)
  next
    case (Some h)
    then obtain h1 where h1: "handlers w1 n = Some h1"
      using handler(1) [of n] by auto
    from handler(2) [OF h1 Some] show ?thesis
      by (simp add: queryRoom_result h1 Some lock(2))
  qed
  have same_query: "fst (query n c w1) = fst (query n c w)" for n c
    by (simp add: query_def assign_field_def Let_def lock(2,4) split: option.splits)
  have unlock: "members (presence w2) = (members (presence w1))(rtype := insert rid (members (presence w1) rtype))"
      "driver w2 = driver w1" "localRooms w2 = (localRooms w1)(rid \<mapsto> room)"
      "subscriptions (presence w2) = subscriptions (presence w1)"
      "keys (presence w2) = keys (presence w1)"
    using unlocked rid type
    by (simp_all add: unlockRoom_def createRoomReferences_def handler_emit_def presence_sadd_def
          Let_def split: option.splits)
  have restored: "localRooms w rid = Some room \<and> rid \<in> members (presence w) rtype \<longrightarrow>
            members (presence w2) = members (presence w) \<and> localRooms w2 = localRooms w"
    by (auto simp add: lock unlock fun_upd_idem_iff insert_absorb)
  have parts: "members (presence w1) rtype = members (presence w) rtype - {rid}"
      "\<forall>k. k \<noteq> rtype \<longrightarrow> members (presence w1) k = members (presence w) k"
      "keys (presence w1) = (keys (presence w))(rid := None)"
      "subscriptions (presence w1) = subscriptions (presence w)"
      "published (presence w1) = published (presence w)"
      "members (presence w2) rtype = insert rid (members (presence w) rtype)"
      "\<forall>k. k \<noteq> rtype \<longrightarrow> members (presence w2) k = members (presence w) k"
      "localRooms w2 = (localRooms w)(rid \<mapsto> room)"
      "driver w2 = driver w"
      "subscriptions (presence w2) = subscriptions (presence w)"
      "keys (presence w2) = (keys (presence w))(rid := None)"
    by (simp_all add: lock unlock)
  show ?thesis
    using exact thrown lock(2,3) same_room same_query restored parts by blast
qed

theorem lockRoom_unlockRoom_references_witness:
  "members (presence (snd (lockRoom ''chat'' example_room example_state))) ''chat'' = {}
   \<and> localRooms (snd (lockRoom ''chat'' example_room example_state)) ''r1'' = Some example_room
   \<and> driver (snd (lockRoom ''chat'' example_room example_state)) = [example_listing, remote_listing]
   \<and> map_option emitted (handlers (snd (lockRoom ''chat'' example_room example_state)) ''chat'')
       = Some [(''lock'', ''r1'')]
   \<and> members (presence (snd (unlockRoom ''chat'' example_room
         (snd (lockRoom ''chat'' example_room example_state))))) ''chat'' = {''r1''}
   \<and> members (presence (snd (unlockRoom ''chat'' example_room
         (snd (lockRoom ''chat'' example_room example_state))))) = members (presence example_state)
   \<and> localRooms (snd (unlockRoom ''chat'' example_room
         (snd (lockRoom ''chat'' example_room example_state)))) = localRooms example_state"
proof -
  have rid: "''r1'' = RoomData.roomId (data example_room)"
    and type: "''chat'' = roomName (data example_room)"
    by (simp_all add: example_room_def)
  have before: "members (presence example_state) ''chat'' = {''r1''}"
      "localRooms example_state ''r1'' = Some example_room"
      "driver example_state = [example_listing, remote_listing]"
      "handlers example_state ''chat'' = Some example_handler"
    by (simp_all add: example_state_def)
  have log: "emitted example_handler = []"
    by (simp add: example_handler_def)
  note inst = lockRoom_unlockRoom_references
        [where rname = "''chat''" and w = example_state, OF refl refl rid type]
  let ?w1 = "snd (lockRoom ''chat'' example_room example_state)"
  let ?w2 = "snd (unlockRoom ''chat'' example_room ?w1)"
  note from_2 = inst [THEN conjunct2, THEN conjunct2]
  note from_7 = from_2 [THEN conjunct2, THEN conjunct2, THEN conjunct2, THEN conjunct2,
      THEN conjunct2]
  note from_11 = from_7 [THEN conjunct2, THEN conjunct2, THEN conjunct2, THEN conjunct2]
  note from_13 = from_11 [THEN conjunct2, THEN conjunct2]
  have a: "members (presence ?w1) ''chat'' = {}"
  proof -
    from from_2 have "members (presence ?w1) ''chat''
                      = members (presence example_state) ''chat'' - {''r1''}"
      by (rule conjunct1)
    then show ?thesis by (simp add: before(1))
  qed
  have b: "localRooms ?w1 ''r1'' = Some example_room"
  proof -
    from from_7 [THEN conjunct2] have "localRooms ?w1 = localRooms example_state"
      by (rule conjunct1)
    then show ?thesis by (simp add: before(2))
  qed
  have c: "driver ?w1 = [example_listing, remote_listing]"
  proof -
    from from_7 have "driver ?w1 = driver example_state"
      by (rule conjunct1)
    then show ?thesis by (simp add: before(3))
  qed
  have d: "map_option emitted (handlers ?w1 ''chat'') = Some [(''lock'', ''r1'')]"
    using inst [THEN conjunct1] by (simp add: before(4) log)
  have e: "members (presence ?w2) ''chat'' = {''r1''}"
  proof -
    from from_11 have "members (presence ?w2) ''chat''
                      = insert ''r1'' (members (presence example_state) ''chat'')"
      by (rule conjunct1)
    then show ?thesis by (simp add: before(1))
  qed
  have f: "members (presence ?w2) = members (presence example_state)
         \<and> localRooms ?w2 = localRooms example_state"
  proof -
    note restored = from_13 [THEN conjunct2, THEN conjunct2, THEN conjunct2, THEN conjunct2]
    have "localRooms example_state ''r1'' = Some example_room
          \<and> ''r1'' \<in> members (presence example_state) ''chat''"
      by (simp add: before(1,2))
    with restored show ?thesis
      by (rule mp)
  qed
  show ?thesis
    using a b c d e f by blast
qed

text \<open>
  The claim as stated has the \<open>lock\<close> event remove only the set membership, and has
  matchmaking queries skip the room for it. When the presence holds a key named by
  the room id, \<open>lockRoom\<close> deletes that key too, and \<open>unlockRoom\<close> does not bring it
  back; and the query for a room of the type, run after \<open>lockRoom\<close>, still returns
  the room, whose listing the callback has not touched.
\<close>

theorem lockRoom_only_membership_counterexample:
  "keys (presence keyed_state) ''r1'' = Some 3
   \<and> keys (presence (snd (lockRoom ''chat'' example_room keyed_state))) ''r1'' = None
   \<and> keys (presence (snd (unlockRoom ''chat'' example_room
        (snd (lockRoom ''chat'' example_room keyed_state))))) ''r1'' = None
   \<and> RoomData.roomId (data example_room) = ''r1''
   \<and> roomName (data example_room) = ''chat''
   \<and> members (presence (snd (lockRoom ''chat'' example_room keyed_state))) ''chat'' = {}
   \<and> fst (queryRoom ''chat'' [] (snd (lockRoom ''chat'' example_room keyed_state)))
       = Inr (Some example_listing)
   \<and> RoomListingData.roomId example_listing = ''r1''"
proof -
  have names: "RoomData.roomId (data example_room) = ''r1''"
      "roomName (data example_room) = ''chat''"
      "RoomListingData.roomId example_listing = ''r1''"
    by (simp_all add: example_room_def example_listing_def)
  have before: "keys (presence keyed_state) ''r1'' = Some 3"
    by (simp add: keyed_state_def)
  have locked: "snd (lockRoom ''chat'' example_room keyed_state) =
      keyed_state\<lparr>presence := (presence keyed_state)\<lparr>members := (\<lambda>k. {}), keys := Map.empty\<rparr>,
                  handlers := [''chat'' \<mapsto> example_handler\<lparr>emitted := [(''lock'', ''r1'')]\<rparr>]\<rparr>"
    by (simp add: lockRoom_def clearRoomReferences_def handler_emit_def presence_srem_def
          presence_del_def names keyed_state_def example_state_def example_handler_def fun_eq_iff)
  have unlocked: "keys (presence (snd (unlockRoom ''chat'' example_room
        (snd (lockRoom ''chat'' example_room keyed_state))))) ''r1'' = None"
    unfolding locked
    by (simp add: unlockRoom_def createRoomReferences_def handler_emit_def presence_sadd_def
          Let_def split: option.splits)
  have found: "fst (queryRoom ''chat'' [] (snd (lockRoom ''chat'' example_room keyed_state)))
       = Inr (Some example_listing)"
    unfolding locked queryRoom_result
    by (simp add: keyed_state_def example_state_def example_handler_def driver_findOne_def
          driver_find_def matches_def field_of_def get_prop_def spread_def
          example_listing_def remote_listing_def)
  show ?thesis
    using names before unlocked found by (simp add: locked)
qed

subsection \<open>Room-join path of the transport\<close>

text \<open>
  Claim C9. On the room-join path, for every request whose room id does not resolve
  to a local room, the handler sends the client a \<open>JOIN_ERROR\<close> frame and closes the
  socket with the code \<open>WS_CLOSE_WITH_ERROR\<close>: the access of \<open>_onJoin\<close> on the missing
  room throws inside the \<open>try\<close>, and the \<open>catch\<close> is the one that handles a failure of
  \<open>_onJoin\<close> on an existing room, where the frame carries the message of that
  failure and the state is the one the failed call leaves: when \<open>_onJoin\<close> does nothing
  outside the room, the state before with the room as \<open>_onJoin\<close> left it.
\<close>

theorem handleMatchJoin_closes_with_error:
  assumes rid: "rid = (case match_process_and_room_id pathname of None \<Rightarrow> ''null'' | Some g \<Rightarrow> g)"
  shows "(getRoomById rid w = None \<longrightarrow>
            handleMatchJoin client pathname sid w =
              (client\<lparr>pingCount := 0, client_id := sid, sessionId := sid,
                      sent := sent client @
                        [(JOIN_ERROR, ''Cannot read property '_onJoin' of undefined'')],
                      closed := Some WS_CLOSE_WITH_ERROR\<rparr>, w))
       \<and> (\<forall>room e w'. getRoomById rid w = Some room
              \<and> room_call rid room ''_onJoin'' [sid] w = (Inl e, w') \<longrightarrow>
            handleMatchJoin client pathname sid w =
              (client\<lparr>pingCount := 0, client_id := sid, sessionId := sid,
                      sent := sent client @ [(JOIN_ERROR, message_of e)],
                      closed := Some WS_CLOSE_WITH_ERROR\<rparr>, w'))
       \<and> (\<forall>room v w'. getRoomById rid w = Some room
              \<and> room_call rid room ''_onJoin'' [sid] w = (Inr v, w') \<longrightarrow>
            handleMatchJoin client pathname sid w =
              (client\<lparr>pingCount := 0, client_id := sid, sessionId := sid\<rparr>, w'))
       \<and> (\<forall>room e room'. getRoomById rid w = Some room
              \<and> room_apply room ''_onJoin'' [sid] = (Inl e, room', []) \<longrightarrow>
            handleMatchJoin client pathname sid w =
              (client\<lparr>pingCount := 0, client_id := sid, sessionId := sid,
                      sent := sent client @ [(JOIN_ERROR, message_of e)],
                      closed := Some WS_CLOSE_WITH_ERROR\<rparr>,
               w\<lparr>localRooms := (localRooms w)(rid \<mapsto> room')\<rparr>))
       \<and> (\<forall>room v room'. getRoomById rid w = Some room
              \<and> room_apply room ''_onJoin'' [sid] = (Inr v, room', []) \<longrightarrow>
            handleMatchJoin client pathname sid w =
              (client\<lparr>pingCount := 0, client_id := sid, sessionId := sid\<rparr>,
               w\<lparr>localRooms := (localRooms w)(rid \<mapsto> room')\<rparr>))"
proof -
  have quiet: "room_call rid room ''_onJoin'' [sid] w
                 = (res, w\<lparr>localRooms := (localRooms w)(rid \<mapsto> room')\<rparr>)"
    if "getRoomById rid w = Some room" "room_apply room ''_onJoin'' [sid] = (res, room', [])"
    for room res room'
    using that by (simp add: room_call_def room_run_def getRoomById_def)
  show ?thesis
    using rid quiet by (simp add: handleMatchJoin_def Let_def)
qed

text \<open>A new connection, before the handler assigns its fields.\<close>

theorem handleMatchJoin_closes_with_error_witness:
  "handleMatchJoin
       \<lparr>pingCount = 3, client_id = JUndefined, sessionId = JUndefined, sent = [], closed = None\<rparr>
       ''/chat/r9'' (JStr ''s1'') example_state
     = (\<lparr>pingCount = 0, client_id = JStr ''s1'', sessionId = JStr ''s1'',
         sent = [(JOIN_ERROR, ''Cannot read property '_onJoin' of undefined'')],
         closed = Some WS_CLOSE_WITH_ERROR\<rparr>, example_state)
   \<and> handleMatchJoin
       \<lparr>pingCount = 3, client_id = JUndefined, sessionId = JUndefined, sent = [], closed = None\<rparr>
       ''/chat/r1'' (JStr ''s1'') example_state
     = (\<lparr>pingCount = 0, client_id = JStr ''s1'', sessionId = JStr ''s1'',
         sent = [(JOIN_ERROR, ''seat reservation expired'')],
         closed = Some WS_CLOSE_WITH_ERROR\<rparr>, example_state)"
proof -
  have m9: "''r9'' = (case match_process_and_room_id ''/chat/r9'' of None \<Rightarrow> ''null'' | Some g \<Rightarrow> g)"
    and m1: "''r1'' = (case match_process_and_room_id ''/chat/r1'' of None \<Rightarrow> ''null'' | Some g \<Rightarrow> g)"
    by (simp_all add: match_process_and_room_id_def room_id_char_def Let_def)
  have none: "getRoomById ''r9'' example_state = None"
    and some: "getRoomById ''r1'' example_state = Some example_room"
    and held: "localRooms example_state ''r1'' = Some example_room"
    by (simp_all add: getRoomById_def example_state_def)
  have join: "room_apply example_room ''_onJoin'' [JStr ''s1'']
                = (Inl (RoomError ''seat reservation expired''), example_room, [])"
    by (simp add: room_apply_def room_member_def example_room_def chat_klass_def)
  have call: "room_call ''r1'' example_room ''_onJoin'' [JStr ''s1''] example_state
                = (Inl (RoomError ''seat reservation expired''), example_state)"
    by (rule room_call_no_effect [OF join held])
  have a: "handleMatchJoin
       \<lparr>pingCount = 3, client_id = JUndefined, sessionId = JUndefined, sent = [], closed = None\<rparr>
       ''/chat/r9'' (JStr ''s1'') example_state
     = (\<lparr>pingCount = 0, client_id = JStr ''s1'', sessionId = JStr ''s1'',
         sent = [(JOIN_ERROR, ''Cannot read property '_onJoin' of undefined'')],
         closed = Some WS_CLOSE_WITH_ERROR\<rparr>, example_state)"
    using handleMatchJoin_closes_with_error [OF m9, of example_state, THEN conjunct1] none
    by simp
  have b: "handleMatchJoin
       \<lparr>pingCount = 3, client_id = JUndefined, sessionId = JUndefined, sent = [], closed = None\<rparr>
       ''/chat/r1'' (JStr ''s1'') example_state
     = (\<lparr>pingCount = 0, client_id = JStr ''s1'', sessionId = JStr ''s1'',
         sent = [(JOIN_ERROR, ''seat reservation expired'')],
         closed = Some WS_CLOSE_WITH_ERROR\<rparr>, example_state)"
    using handleMatchJoin_closes_with_error
        [OF m1, of example_state, THEN conjunct2, THEN conjunct1] some call
    by simp
  show ?thesis
    using a b by blast
qed

subsection \<open>Query and the caller's conditions\<close>

text \<open>
  Claim C10. \<open>query\<close> mutates the conditions object its caller supplies: the object
  at the caller's address has, after the call, \<open>private\<close> set to \<open>false\<close> and, when a
  room name was given (a non-empty text), \<open>name\<close> set to it. No copy is made: no
  object is allocated, no other object changes, nothing else in the state changes,
  and the conditions the driver receives are the caller's object.
\<close>

theorem query_mutates_conditions:
  assumes ref: "c < length (objects w)"
  shows "objects (snd (query rname (Some c) w)) ! c =
           set_prop
             (case rname of
                None \<Rightarrow> objects w ! c
              | Some n \<Rightarrow> if n \<noteq> [] then set_prop (objects w ! c) ''name'' (JStr n) else objects w ! c)
             ''private'' (JBool False)
       \<and> get_prop (objects (snd (query rname (Some c) w)) ! c) ''private'' = JBool False
       \<and> (\<forall>n. rname = Some n \<and> n \<noteq> [] \<longrightarrow>
            get_prop (objects (snd (query rname (Some c) w)) ! c) ''name'' = JStr n)
       \<and> length (objects (snd (query rname (Some c) w))) = length (objects w)
       \<and> (\<forall>a. a \<noteq> c \<longrightarrow> objects (snd (query rname (Some c) w)) ! a = objects w ! a)
       \<and> snd (query rname (Some c) w) = w\<lparr>objects := objects (snd (query rname (Some c) w))\<rparr>
       \<and> fst (query rname (Some c) w) =
           driver_find (objects (snd (query rname (Some c) w)) ! c) (driver w)"
proof -
  have obj: "objects (snd (query rname (Some c) w)) =
           (objects w)[c := set_prop
              (case rname of
                 None \<Rightarrow> objects w ! c
               | Some n \<Rightarrow> if n \<noteq> [] then set_prop (objects w ! c) ''name'' (JStr n) else objects w ! c)
              ''private'' (JBool False)]"
    using ref by (rule query_result(1))
  have at_c: "objects (snd (query rname (Some c) w)) ! c =
           set_prop
             (case rname of
                None \<Rightarrow> objects w ! c
              | Some n \<Rightarrow> if n \<noteq> [] then set_prop (objects w ! c) ''name'' (JStr n) else objects w ! c)
             ''private'' (JBool False)"
    using ref by (simp add: obj)
  have len: "length (objects (snd (query rname (Some c) w))) = length (objects w)"
    by (simp add: obj)
  have others: "\<forall>a. a \<noteq> c \<longrightarrow> objects (snd (query rname (Some c) w)) ! a = objects w ! a"
    by (simp add: obj)
  have props: "get_prop (objects (snd (query rname (Some c) w)) ! c) ''private'' = JBool False"
      "\<forall>n. rname = Some n \<and> n \<noteq> [] \<longrightarrow>
            get_prop (objects (snd (query rname (Some c) w)) ! c) ''name'' = JStr n"
    unfolding at_c by (simp_all add: get_prop_set_prop)
  show ?thesis
    using at_c props len others query_result(2) [OF ref] query_result(3) [OF ref] by blast
qed

theorem query_mutates_conditions_witness:
  "objects query_state = [[]]
   \<and> objects (snd (query (Some ''chat'') (Some 0) query_state)) ! 0
       = [(''name'', JStr ''chat''), (''private'', JBool False)]
   \<and> objects (snd (query (Some []) (Some 0) query_state)) ! 0 = [(''private'', JBool False)]
   \<and> length (objects (snd (query (Some ''chat'') (Some 0) query_state))) = 1"
proof -
  have objs: "objects query_state = [[]]"
    by (simp add: example_defs)
  have ref: "0 < length (objects query_state)"
    by (simp add: objs)
  show ?thesis
    using query_mutates_conditions [OF ref, of "Some ''chat''"]
      query_mutates_conditions [OF ref, of "Some []"]
    by (simp add: objs)
qed

end
